theory Spec2Isabelle
  imports Complex_Main "HOL-Library.Word"
begin

unbundle bit_operations_syntax

section \<open>Orb Cascade: a shallow embedding of main.js\<close>

text \<open>
  JavaScript numbers are modelled as \<^typ>\<open>real\<close> (ideal arithmetic, no rounding, no NaN),
  except the state of the pseudo-random generator, which the source keeps in 32 bits and
  which is a \<^typ>\<open>32 word\<close> here. Counters that the source only increments from a
  literal (ids, indices) are \<^typ>\<open>nat\<close>. A vector \<open>{x, y}\<close> is a pair.
\<close>

type_synonym vec = "real \<times> real"

datatype error = TypeError

subsection \<open>Utility (main.js 14-24)\<close>

definition clamp :: "real \<Rightarrow> real \<Rightarrow> real \<Rightarrow> real" where
  "clamp v a b = max a (min b v)"

text \<open>\<open>Math.hypot\<close> of two arguments.\<close>

definition hypot :: "real \<Rightarrow> real \<Rightarrow> real" where
  "hypot a b = sqrt (a * a + b * b)"

text \<open>
  \<open>rand(seed)\<close> returns a closure over the variable \<open>x\<close>, initialised to \<open>seed >>> 0\<close>.
  The closure's state is threaded explicitly: \<open>rand\<close> gives the initial state and
  \<open>rng\<close> is one call of the closure, returning the drawn value and the next state.
  Every intermediate value of the closure body is reduced to 32 bits by the bitwise
  operators themselves, so the body is three xor-shifts on a 32-bit word.
\<close>

definition rand :: "int \<Rightarrow> 32 word" where
  "rand seed = word_of_int seed"

definition xorshift :: "32 word \<Rightarrow> 32 word" where
  "xorshift x0 =
     (let x1 = x0 XOR push_bit 13 x0;
          x2 = x1 XOR drop_bit 17 x1;
          x3 = x2 XOR push_bit 5 x2
      in x3)"

definition rng :: "32 word \<Rightarrow> real \<times> 32 word" where
  "rng x = (real (unat (xorshift x)) / 4294967295, xorshift x)"

subsection \<open>Obstacle entities (main.js 179-287)\<close>

record panel =
  panel_a :: vec
  panel_b :: vec
  restitution :: real

record zone =
  zone_x :: real
  zone_y :: real
  zone_w :: real
  zone_h :: real
  zone_type :: string

text \<open>
  The \<open>partner\<close> field of a warp is a reference to another warp object of the same board
  (or \<open>null\<close>). A reference is modelled as the position of the partner in the board's
  \<open>warps\<close> array.
\<close>

record warp =
  warp_x :: real
  warp_y :: real
  warp_r :: real
  warp_id :: nat
  partner :: "nat option"

record gate =
  gate_a :: vec
  gate_b :: vec
  gate_id :: nat

datatype kind = Blue | Purple | Gold

text \<open>A portal's kind is \<open>kinds[i]\<close>; \<open>None\<close> is JavaScript's \<open>undefined\<close> for an index out of range.\<close>

record portal =
  portal_x :: real
  portal_y :: real
  portal_w :: real
  portal_h :: real
  portal_kind :: "kind option"

definition Panel_new :: "real \<Rightarrow> real \<Rightarrow> real \<Rightarrow> real \<Rightarrow> panel" where
  "Panel_new x1 y1 x2 y2 = \<lparr>panel_a = (x1, y1), panel_b = (x2, y2), restitution = 95 / 100\<rparr>"

definition Zone_new :: "real \<Rightarrow> real \<Rightarrow> real \<Rightarrow> real \<Rightarrow> string \<Rightarrow> zone" where
  "Zone_new x y w h t = \<lparr>zone_x = x, zone_y = y, zone_w = w, zone_h = h, zone_type = t\<rparr>"

definition Warp_new :: "real \<Rightarrow> real \<Rightarrow> real \<Rightarrow> nat \<Rightarrow> warp" where
  "Warp_new x y r i = \<lparr>warp_x = x, warp_y = y, warp_r = r, warp_id = i, partner = None\<rparr>"

definition Gate_new :: "real \<Rightarrow> real \<Rightarrow> real \<Rightarrow> real \<Rightarrow> nat \<Rightarrow> gate" where
  "Gate_new x1 y1 x2 y2 i = \<lparr>gate_a = (x1, y1), gate_b = (x2, y2), gate_id = i\<rparr>"

definition Portal_new :: "real \<Rightarrow> real \<Rightarrow> real \<Rightarrow> real \<Rightarrow> kind option \<Rightarrow> portal" where
  "Portal_new x y w h k = \<lparr>portal_x = x, portal_y = y, portal_w = w, portal_h = h, portal_kind = k\<rparr>"

subsection \<open>Board presets (the \<open>board.presets\<close> entries of config.json)\<close>

text \<open>
  config.json is not part of the sources; a preset is typed by the way \<open>Board.generate\<close>
  reads it: \<open>panels\<close> is iterated as it is, \<open>zones\<close>, \<open>warps\<close> and \<open>gates\<close> may be absent
  (\<open>|| []\<close>), \<open>portals\<close> may be absent or zero (\<open>|| 3\<close>).
\<close>

record preset =
  preset_panels :: "(real \<times> real \<times> real \<times> real) list"
  preset_zones :: "(real \<times> real \<times> real \<times> real \<times> string) list option"
  preset_warps :: "(real \<times> real \<times> real \<times> real \<times> real) list option"
  preset_gates :: "(real \<times> real \<times> real \<times> real) list option"
  preset_portals :: "nat option"

subsection \<open>Board generation (main.js 289-343)\<close>

record board =
  panels :: "panel list"
  zones :: "zone list"
  warps :: "warp list"
  gates :: "gate list"
  portals :: "portal list"
  seed :: int

definition VIRTUAL_W :: real where "VIRTUAL_W = 720"
definition VIRTUAL_H :: real where "VIRTUAL_H = 1280"

text \<open>\<open>jitter(v) = v + (this.rng() - 0.5) * 60\<close>: one draw per coordinate.\<close>

definition jitter :: "real \<Rightarrow> 32 word \<Rightarrow> real \<times> 32 word" where
  "jitter v x = (let (r, x') = rng x in (v + (r - 1 / 2) * 60, x'))"

text \<open>The four arguments of \<open>new Panel(...)\<close> are evaluated left to right.\<close>

fun gen_panels :: "(real \<times> real \<times> real \<times> real) list \<Rightarrow> 32 word \<Rightarrow> panel list \<times> 32 word" where
  "gen_panels [] x = ([], x)"
| "gen_panels ((s0, s1, s2, s3) # segs) x =
     (let (j0, xa) = jitter s0 x;
          (j1, xb) = jitter s1 xa;
          (j2, xc) = jitter s2 xb;
          (j3, xd) = jitter s3 xc;
          (ps, xe) = gen_panels segs xd
      in (Panel_new j0 j1 j2 j3 # ps, xe))"

definition gen_zones :: "(real \<times> real \<times> real \<times> real \<times> string) list \<Rightarrow> zone list" where
  "gen_zones zs = map (\<lambda>(z0, z1, z2, z3, z4). Zone_new z0 z1 z2 z3 z4) zs"

text \<open>
  The warp loop: \<open>wid\<close> is the running id, \<open>acc\<close> the \<open>this.warps\<close> array built so far.
  \<open>wa\<close> lands at position \<open>length acc\<close> and \<open>wb\<close> right after it.
\<close>

fun gen_warps :: "(real \<times> real \<times> real \<times> real \<times> real) list \<Rightarrow> nat \<Rightarrow> warp list \<Rightarrow> warp list" where
  "gen_warps [] wid acc = acc"
| "gen_warps ((w0, w1, w2, w3, w4) # ws) wid acc =
     (let wa = Warp_new w0 w1 w2 wid;
          wb = Warp_new w3 w4 w2 (wid + 1);
          wa = wa\<lparr>partner := Some (length acc + 1)\<rparr>;
          wb = wb\<lparr>partner := Some (length acc)\<rparr>
      in gen_warps ws (wid + 2) (acc @ [wa, wb]))"

fun gen_gates :: "(real \<times> real \<times> real \<times> real) list \<Rightarrow> nat \<Rightarrow> gate list" where
  "gen_gates [] gid = []"
| "gen_gates ((g0, g1, g2, g3) # gs) gid = Gate_new g0 g1 g2 g3 gid # gen_gates gs (gid + 1)"

definition kinds :: "kind list" where
  "kinds = [Blue, Purple, Gold]"

text \<open>\<open>kinds[i]\<close>, with \<open>undefined\<close> out of range.\<close>

definition kinds_at :: "nat \<Rightarrow> kind option" where
  "kinds_at i = (if i < length kinds then Some (kinds ! i) else None)"

text \<open>
  The portal loop \<open>for(let i=0;i<count;i++)\<close>, written from \<open>i\<close> upwards with \<open>n\<close> the
  number of iterations left.
\<close>

fun gen_portals :: "real \<Rightarrow> nat \<Rightarrow> nat \<Rightarrow> 32 word \<Rightarrow> portal list \<times> 32 word" where
  "gen_portals gap i 0 x = ([], x)"
| "gen_portals gap i (Suc n) x =
     (let px = gap + real i * (160 + gap);
          (r, x') = rng x;
          k = kinds_at (nat \<lfloor>r * real (length kinds)\<rfloor>);
          (ps, x'') = gen_portals gap (i + 1) n x'
      in (Portal_new px (VIRTUAL_H - 110) 160 70 k # ps, x''))"

text \<open>
  \<open>Board.generate\<close> on the fresh board of the constructor (all five arrays empty).
  \<open>presets[pidx]\<close> is \<open>undefined\<close> when \<open>pidx\<close> is out of range, and reading \<open>.panels\<close> of it
  throws.
\<close>

definition generate :: "preset list \<Rightarrow> int \<Rightarrow> 32 word \<Rightarrow> error + (board \<times> 32 word)" where
  "generate presets sd x =
     (let (r, x1) = rng x;
          pidx = nat \<lfloor>r * real (length presets)\<rfloor>
      in if pidx < length presets then
           (let pr = presets ! pidx;
                (ps, x2) = gen_panels (preset_panels pr) x1;
                zs = gen_zones (case preset_zones pr of None \<Rightarrow> [] | Some l \<Rightarrow> l);
                ws = gen_warps (case preset_warps pr of None \<Rightarrow> [] | Some l \<Rightarrow> l) 1 [];
                gs = gen_gates (case preset_gates pr of None \<Rightarrow> [] | Some l \<Rightarrow> l) 1;
                count = (case preset_portals pr of None \<Rightarrow> 3 | Some c \<Rightarrow> if c = 0 then 3 else c);
                gap = (VIRTUAL_W - real count * 160) / (real count + 1);
                (qs, x3) = gen_portals gap 0 count x2
            in Inr (\<lparr>panels = ps, zones = zs, warps = ws, gates = gs, portals = qs, seed = sd\<rparr>, x3))
         else Inl TypeError)"

text \<open>\<open>new Board(seed)\<close>: the board and the state its generator is left in.\<close>

definition Board_new :: "preset list \<Rightarrow> int \<Rightarrow> error + (board \<times> 32 word)" where
  "Board_new presets sd = generate presets sd (rand sd)"

subsection \<open>Configuration (the fields of config.json that main.js reads)\<close>

record physics_conf =
  gravity :: real
  v_max :: real
  v_min :: real
  accelPerFrame :: real
  dragPerFrame :: real

record energy_conf =
  energy_gold :: real
  energy_default :: real
  energy_onMiss :: real
  energy_gate :: real

text \<open>
  \<open>scores.portals\<close> is read as \<open>map[kind] || map.blue\<close> and is typed as a table with an
  entry for each of the three kinds.
\<close>

record scores_conf =
  scores_portals :: "kind \<Rightarrow> real"
  scores_energy :: energy_conf
  scores_gate :: real

record bonus_conf =
  baseProb :: real
  cap :: real

record flow_conf =
  baseDuration :: real
  scoreMultiplier :: real
  energyMultiplier :: real
  extendProb :: real
  extendSeconds :: real
  extendCap :: real

record fire_conf =
  fire_min :: real
  fire_max :: real

record config =
  orbRadius :: real
  shotsPerGame :: real
  physics :: physics_conf
  scores :: scores_conf
  bonus :: bonus_conf
  flow :: flow_conf
  warp_cooldown :: real
  fire :: fire_conf
  board_presets :: "preset list"

subsection \<open>Containment and proximity tests (main.js 184-209, 225, 239, 247-261, 278)\<close>

definition Zone_contains :: "zone \<Rightarrow> real \<Rightarrow> real \<Rightarrow> bool" where
  "Zone_contains z px py \<longleftrightarrow>
     px \<ge> zone_x z \<and> px \<le> zone_x z + zone_w z \<and> py \<ge> zone_y z \<and> py \<le> zone_y z + zone_h z"

definition Warp_contains :: "warp \<Rightarrow> real \<Rightarrow> real \<Rightarrow> bool" where
  "Warp_contains w px py \<longleftrightarrow>
     (px - warp_x w) * (px - warp_x w) + (py - warp_y w) * (py - warp_y w) \<le> warp_r w * warp_r w"

definition Portal_contains :: "portal \<Rightarrow> real \<Rightarrow> real \<Rightarrow> bool" where
  "Portal_contains p px py \<longleftrightarrow>
     px \<ge> portal_x p \<and> px \<le> portal_x p + portal_w p \<and>
     py \<ge> portal_y p \<and> py \<le> portal_y p + portal_h p"

text \<open>
  \<open>distToPoint\<close> divides by \<open>l2\<close> without a test; \<open>Orb.update\<close> calls it only after
  \<open>normalAtClosest\<close> has returned a normal, that is with \<open>l2 \<noteq> 0\<close>.
\<close>

definition distToPoint :: "panel \<Rightarrow> vec \<Rightarrow> real" where
  "distToPoint p q =
     (let ax = fst (panel_a p); ay = snd (panel_a p); bx = fst (panel_b p); by = snd (panel_b p);
          vx = bx - ax; vy = by - ay;
          wx = fst q - ax; wy = snd q - ay;
          l2 = vx * vx + vy * vy;
          t = (vx * wx + vy * wy) / l2;
          t = max 0 (min 1 t);
          cx = ax + vx * t; cy = ay + vy * t;
          dx = fst q - cx; dy = snd q - cy
      in hypot dx dy)"

definition normalAtClosest :: "panel \<Rightarrow> vec \<Rightarrow> vec option" where
  "normalAtClosest p q =
     (let ax = fst (panel_a p); ay = snd (panel_a p); bx = fst (panel_b p); by = snd (panel_b p);
          vx = bx - ax; vy = by - ay;
          l2 = vx * vx + vy * vy
      in if l2 = 0 then None
         else
           (let t = ((fst q - ax) * vx + (snd q - ay) * vy) / l2;
                t = max 0 (min 1 t);
                cx = ax + vx * t; cy = ay + vy * t;
                nx = fst q - cx; ny = snd q - cy;
                len = hypot nx ny
            in if len = 0 then None else Some (nx / len, ny / len)))"

subsection \<open>The orb (main.js 68-166)\<close>

record orb =
  pos :: vec
  vel :: vec
  radius :: real
  gatePassed :: "nat set"
  warpCooldown :: real
  alive :: bool
  orb_id :: nat

definition Orb_new :: "config \<Rightarrow> real \<Rightarrow> real \<Rightarrow> real \<Rightarrow> real \<Rightarrow> nat \<Rightarrow> orb" where
  "Orb_new cfg x y vx vy i =
     \<lparr>pos = (x, y), vel = (vx, vy), radius = orbRadius cfg, gatePassed = {},
      warpCooldown = 0, alive = True, orb_id = i\<rparr>"

definition checkPass :: "gate \<Rightarrow> orb \<Rightarrow> bool" where
  "checkPass g ob =
     (let ox = fst (pos ob); oy = snd (pos ob);
          ax = fst (gate_a g); ay = snd (gate_a g); bx = fst (gate_b g); by = snd (gate_b g);
          vx = bx - ax; vy = by - ay;
          wx = ox - ax; wy = oy - ay;
          l2 = vx * vx + vy * vy
      in if l2 = 0 then False
         else
           (let t = (vx * wx + vy * wy) / l2
            in if t < 0 \<or> t > 1 then False
               else
                 (let cx = ax + vx * t; cy = ay + vy * t;
                      dist = hypot (ox - cx) (oy - cy)
                  in dist \<le> radius ob + 2)))"

text \<open>Steps of \<open>Orb.update\<close> that touch the orb only. Gravity and the speed clamp (80-89):\<close>

definition apply_gravity :: "config \<Rightarrow> real \<Rightarrow> orb \<Rightarrow> orb" where
  "apply_gravity cfg dt ob = ob\<lparr>vel := (fst (vel ob), snd (vel ob) + gravity (physics cfg) * dt)\<rparr>"

definition scale_vel :: "real \<Rightarrow> orb \<Rightarrow> orb" where
  "scale_vel s ob = ob\<lparr>vel := (fst (vel ob) * s, snd (vel ob) * s)\<rparr>"

text \<open>
  \<open>speed\<close> is computed once, before the two tests; the second test is an \<open>if\<close> of its own,
  not an \<open>else\<close>.
\<close>

definition clamp_speed :: "config \<Rightarrow> orb \<Rightarrow> orb" where
  "clamp_speed cfg ob =
     (let speed = hypot (fst (vel ob)) (snd (vel ob));
          ob1 = (if speed > v_max (physics cfg) then scale_vel (v_max (physics cfg) / speed) ob
                 else ob);
          ob2 = (if speed < v_min (physics cfg)
                 then scale_vel (v_min (physics cfg) / (speed + 1 / 1000000)) ob1
                 else ob1)
      in ob2)"

definition move :: "real \<Rightarrow> orb \<Rightarrow> orb" where
  "move dt ob = ob\<lparr>pos := (fst (pos ob) + fst (vel ob) * dt, snd (pos ob) + snd (vel ob) * dt)\<rparr>"

definition walls :: "orb \<Rightarrow> orb" where
  "walls ob =
     (let ob1 = (if fst (pos ob) - radius ob < 0
                 then ob\<lparr>pos := (radius ob, snd (pos ob)),
                         vel := (\<bar>fst (vel ob)\<bar> * (95 / 100), snd (vel ob))\<rparr>
                 else ob);
          ob2 = (if fst (pos ob1) + radius ob1 > VIRTUAL_W
                 then ob1\<lparr>pos := (VIRTUAL_W - radius ob1, snd (pos ob1)),
                          vel := (- \<bar>fst (vel ob1)\<bar> * (95 / 100), snd (vel ob1))\<rparr>
                 else ob1);
          ob3 = (if snd (pos ob2) - radius ob2 < 0
                 then ob2\<lparr>pos := (fst (pos ob2), radius ob2),
                          vel := (fst (vel ob2), \<bar>snd (vel ob2)\<bar> * (95 / 100))\<rparr>
                 else ob2)
      in ob3)"

text \<open>
  \<open>Math.pow\<close> on reals: the exponent 0 gives 1 for every base; otherwise the model is
  \<open>powr\<close>, which is \<open>Math.pow\<close> for the positive rates a configuration holds.
\<close>

definition Math_pow :: "real \<Rightarrow> real \<Rightarrow> real" where
  "Math_pow a b = (if b = 0 then 1 else a powr b)"

fun zones_loop :: "config \<Rightarrow> real \<Rightarrow> zone list \<Rightarrow> orb \<Rightarrow> orb" where
  "zones_loop cfg dt [] ob = ob"
| "zones_loop cfg dt (z # zs) ob =
     (if Zone_contains z (fst (pos ob)) (snd (pos ob)) then
        (let ob1 = (if zone_type z = ''accel''
                    then scale_vel (Math_pow (accelPerFrame (physics cfg)) (dt * 60)) ob else ob);
             ob2 = (if zone_type z = ''drag''
                    then scale_vel (Math_pow (dragPerFrame (physics cfg)) (dt * 60)) ob1 else ob1)
         in zones_loop cfg dt zs ob2)
      else zones_loop cfg dt zs ob)"

fun panels_loop :: "panel list \<Rightarrow> orb \<Rightarrow> orb" where
  "panels_loop [] ob = ob"
| "panels_loop (p # ps) ob =
     (case normalAtClosest p (pos ob) of
        None \<Rightarrow> panels_loop ps ob
      | Some n \<Rightarrow>
          (let dist = distToPoint p (pos ob)
           in if dist \<le> radius ob + 1 / 2 then
                (let v = vel ob;
                     dot = fst v * fst n + snd v * snd n
                 in if dot < 0 then
                      panels_loop ps
                        (ob\<lparr>vel := ((fst v - 2 * dot * fst n) * restitution p,
                                    (snd v - 2 * dot * snd n) * restitution p),
                            pos := (fst (pos ob) + fst n * (radius ob - dist + 1 / 2),
                                    snd (pos ob) + snd n * (radius ob - dist + 1 / 2))\<rparr>)
                    else panels_loop ps ob)
              else panels_loop ps ob))"

text \<open>
  The warp step (130-141). \<open>w.partner\<close> is dereferenced in the board's whole \<open>warps\<close> array
  \<open>all\<close>; a reference that points nowhere counts as \<open>null\<close>. The loop stops at the first
  teleport (\<open>break\<close>).
\<close>

definition deref_warp :: "warp list \<Rightarrow> nat option \<Rightarrow> warp option" where
  "deref_warp all r = (case r of None \<Rightarrow> None
                       | Some i \<Rightarrow> if i < length all then Some (all ! i) else None)"

fun warps_loop :: "config \<Rightarrow> warp list \<Rightarrow> warp list \<Rightarrow> orb \<Rightarrow> orb" where
  "warps_loop cfg all [] ob = ob"
| "warps_loop cfg all (w # ws) ob =
     (if Warp_contains w (fst (pos ob)) (snd (pos ob)) \<and> warpCooldown ob \<le> 0 then
        (case deref_warp all (partner w) of
           Some other \<Rightarrow> ob\<lparr>pos := (warp_x other, warp_y other), warpCooldown := warp_cooldown cfg\<rparr>
         | None \<Rightarrow> warps_loop cfg all ws ob)
      else warps_loop cfg all ws ob)"

definition cool_down :: "real \<Rightarrow> orb \<Rightarrow> orb" where
  "cool_down dt ob = (if warpCooldown ob > 0 then ob\<lparr>warpCooldown := warpCooldown ob - dt\<rparr> else ob)"

definition warp_step :: "config \<Rightarrow> real \<Rightarrow> warp list \<Rightarrow> orb \<Rightarrow> orb" where
  "warp_step cfg dt ws ob = warps_loop cfg ws ws (cool_down dt ob)"

text \<open>Lines 80-128 in order: the steps before the warps.\<close>

definition pre_warp :: "config \<Rightarrow> real \<Rightarrow> board \<Rightarrow> orb \<Rightarrow> orb" where
  "pre_warp cfg dt b ob =
     panels_loop (panels b)
       (zones_loop cfg dt (zones b)
         (walls (move dt (clamp_speed cfg (apply_gravity cfg dt ob)))))"

text \<open>Lines 80-141: everything \<open>Orb.update\<close> does before it starts calling back.\<close>

definition motion :: "config \<Rightarrow> real \<Rightarrow> board \<Rightarrow> orb \<Rightarrow> orb" where
  "motion cfg dt b ob = warp_step cfg dt (warps b) (pre_warp cfg dt b ob)"

subsection \<open>Game state (main.js 360-374, 564-568)\<close>

text \<open>
  The record holds \<open>gameState\<close>, the module variables \<open>flashTimer\<close>, \<open>flashStrong\<close> and
  \<open>lastTs\<close>, and the parts of the environment the game logic reads or writes:
  \<^item> \<open>oc_highscore\<close>: the \<open>localStorage\<close> item of that name (\<open>None\<close> when it was never set);
  \<^item> \<open>randoms\<close>: how many times \<open>Math.random()\<close> has been called; the values it returns are
    a parameter \<open>rnd\<close> of the functions that draw, the \<open>n\<close>-th call returning \<open>rnd n\<close>;
  \<^item> \<open>orbs\<close>, \<open>allocated\<close>: the \<open>Orb\<close> objects, by address, and the number of them created.
    \<open>gameState.currentOrb\<close> is \<open>null\<close> or the address of an orb, so that what a callback
    reads through \<open>gameState.currentOrb\<close> is what \<open>Orb.update\<close> has written to \<open>this\<close>.
\<close>

record world =
  score :: real
  shotsLeft :: real
  energy :: real
  combo :: nat
  isFlow :: bool
  flowTimeLeft :: real
  rngSeed :: int
  recentShots :: "(kind option \<times> bool) list"
  currentOrb :: "nat option"
  orbIndex :: nat
  gs_board :: "board option"
  highScore :: real
  flashTimer :: real
  flashStrong :: bool
  lastTs :: real
  oc_highscore :: "real option"
  randoms :: nat
  orbs :: "nat \<Rightarrow> orb"
  allocated :: nat

definition Math_random :: "(nat \<Rightarrow> real) \<Rightarrow> 'a world_scheme \<Rightarrow> real \<times> 'a world_scheme" where
  "Math_random rnd w = (rnd (randoms w), w\<lparr>randoms := randoms w + 1\<rparr>)"

text \<open>\<open>Math.round\<close>: the nearest integer, halves upwards.\<close>

definition Math_round :: "real \<Rightarrow> real" where
  "Math_round v = real_of_int \<lfloor>v + 1 / 2\<rfloor>"

subsection \<open>Scoring helpers and the bonus and flow draws (main.js 380-425)\<close>

definition portalScore :: "config \<Rightarrow> kind option \<Rightarrow> real" where
  "portalScore cfg k =
     (let m = scores_portals (scores cfg)
      in case k of None \<Rightarrow> m Blue
         | Some k' \<Rightarrow> if m k' = 0 then m Blue else m k')"

text \<open>\<open>recentShots.slice(-3)\<close>\<close>

definition last3 :: "'b list \<Rightarrow> 'b list" where
  "last3 xs = drop (length xs - 3) xs"

definition calcBonusProb :: "config \<Rightarrow> 'a world_scheme \<Rightarrow> real" where
  "calcBonusProb cfg w =
     (let p = baseProb (bonus cfg);
          l3 = last3 (recentShots w);
          p = (if \<exists>s \<in> set l3. fst s = Some Gold then p + 5 / 100 else p);
          zeroCount = length (filter snd l3);
          p = (if zeroCount \<ge> 2 then p + 6 / 100 else p);
          p = (if combo w \<ge> 2 then p + 3 / 100 else p)
      in min p (cap (bonus cfg)))"

definition playBonusAnimation :: "bool \<Rightarrow> 'a world_scheme \<Rightarrow> 'a world_scheme" where
  "playBonusAnimation success w =
     w\<lparr>flashTimer := (if success then 8 / 10 else 6 / 10), flashStrong := success\<rparr>"

definition enterFlow :: "config \<Rightarrow> 'a world_scheme \<Rightarrow> 'a world_scheme" where
  "enterFlow cfg w = w\<lparr>isFlow := True, flowTimeLeft := baseDuration (flow cfg)\<rparr>"

definition doEnergyCheck :: "config \<Rightarrow> (nat \<Rightarrow> real) \<Rightarrow> 'a world_scheme \<Rightarrow> 'a world_scheme" where
  "doEnergyCheck cfg rnd w =
     (if energy w \<ge> 100 then
        (let w1 = w\<lparr>energy := 0\<rparr>;
             p = calcBonusProb cfg w1;
             (r, w2) = Math_random rnd w1;
             w3 = playBonusAnimation (r < p) w2
         in if r < p then enterFlow cfg w3 else w3)
      else w)"

definition doFlowExtendDraw :: "config \<Rightarrow> (nat \<Rightarrow> real) \<Rightarrow> 'a world_scheme \<Rightarrow> 'a world_scheme" where
  "doFlowExtendDraw cfg rnd w =
     (let (r, w1) = Math_random rnd w
      in if r < extendProb (flow cfg) then
           (let add = extendSeconds (flow cfg)
            in w1\<lparr>flowTimeLeft := min (flowTimeLeft w1 + add) (extendCap (flow cfg))\<rparr>)
         else w1)"

subsection \<open>The handlers defined on \<open>Board.prototype\<close> (main.js 428-466)\<close>

text \<open>\<open>recentShots.push(s); if(recentShots.length > 10) recentShots.shift()\<close>\<close>

definition record_shot :: "kind option \<times> bool \<Rightarrow> 'a world_scheme \<Rightarrow> 'a world_scheme" where
  "record_shot s w =
     (let l = recentShots w @ [s]
      in w\<lparr>recentShots := (if length l > 10 then tl l else l)\<rparr>)"

definition Board_onPortalEntered ::
    "config \<Rightarrow> (nat \<Rightarrow> real) \<Rightarrow> portal \<Rightarrow> 'a world_scheme \<Rightarrow> 'a world_scheme" where
  "Board_onPortalEntered cfg rnd p w =
     (let base = portalScore cfg (portal_kind p);
          mult = (if isFlow w then scoreMultiplier (flow cfg) else 1);
          added = Math_round (base * mult);
          w = w\<lparr>score := score w + added\<rparr>;
          w = w\<lparr>combo := (case currentOrb w of
                             None \<Rightarrow> 1
                           | Some a \<Rightarrow> if gatePassed (orbs w a) \<noteq> {} then combo w + 1 else 1)\<rparr>;
          energyAdd = (if portal_kind p = Some Gold then energy_gold (scores_energy (scores cfg))
                       else energy_default (scores_energy (scores cfg)));
          w = w\<lparr>energy := clamp (energy w + energyAdd *
                                    (if isFlow w then energyMultiplier (flow cfg) else 1)) 0 100\<rparr>;
          w = record_shot (portal_kind p, False) w;
          w = w\<lparr>currentOrb := None\<rparr>;
          w = w\<lparr>shotsLeft := shotsLeft w - 1\<rparr>;
          w = (if score w > highScore w
               then w\<lparr>highScore := score w, oc_highscore := Some (score w)\<rparr>
               else w)
      in doEnergyCheck cfg rnd w)"

definition Board_onMiss :: "config \<Rightarrow> (nat \<Rightarrow> real) \<Rightarrow> nat \<Rightarrow> 'a world_scheme \<Rightarrow> 'a world_scheme" where
  "Board_onMiss cfg rnd ob w =
     (let w = w\<lparr>energy := clamp (energy w + energy_onMiss (scores_energy (scores cfg))) 0 100\<rparr>;
          w = record_shot (None, True) w;
          w = w\<lparr>currentOrb := None\<rparr>;
          w = w\<lparr>combo := 0\<rparr>;
          w = w\<lparr>shotsLeft := shotsLeft w - 1\<rparr>
      in doEnergyCheck cfg rnd w)"

text \<open>The second assignment to \<open>Board.prototype.onGatePassed\<close> (463) replaces the empty one (428).\<close>

definition Board_onGatePassed :: "config \<Rightarrow> gate \<Rightarrow> 'a world_scheme \<Rightarrow> 'a world_scheme" where
  "Board_onGatePassed cfg g w =
     (let w = w\<lparr>score := score w + scores_gate (scores cfg)\<rparr>
      in w\<lparr>energy := clamp (energy w + energy_gate (scores_energy (scores cfg))) 0 100\<rparr>)"

subsection \<open>The callbacks of a board object\<close>

text \<open>
  \<open>Orb.update\<close> calls \<open>board.onGatePassed\<close>, \<open>board.onPortalEntered\<close> and \<open>board.onMiss\<close>:
  whatever functions the board object holds under these names. They are a parameter of
  the model of \<open>Orb.update\<close>; a callback returns the new state or raises. An exception
  leaves \<open>Orb.update\<close> and \<open>tick\<close> at once; the result \<open>Inl\<close> does not keep the state
  the exception leaves behind.

  \<^item> \<open>prototype_callbacks\<close> are the three handlers of \<open>Board.prototype\<close> above.
  \<^item> \<open>constructor_callbacks\<close> are the own properties that the constructor (300-302) gives
    every board: closures that call \<open>gameState.onGatePassed\<close>, \<open>gameState.onPortal\<close> and
    \<open>gameState.onMiss\<close>. main.js gives \<open>gameState\<close> no such members, so each call is a call
    of \<open>undefined\<close> and raises. Own properties hide those of the prototype.
\<close>

record 'w callbacks =
  onGatePassed :: "gate \<Rightarrow> 'w \<Rightarrow> error + 'w"
  onPortalEntered :: "portal \<Rightarrow> 'w \<Rightarrow> error + 'w"
  onMiss :: "nat \<Rightarrow> 'w \<Rightarrow> error + 'w"

definition prototype_callbacks :: "config \<Rightarrow> (nat \<Rightarrow> real) \<Rightarrow> 'a world_scheme callbacks" where
  "prototype_callbacks cfg rnd =
     \<lparr>onGatePassed = (\<lambda>g w. Inr (Board_onGatePassed cfg g w)),
      onPortalEntered = (\<lambda>p w. Inr (Board_onPortalEntered cfg rnd p w)),
      onMiss = (\<lambda>ob w. Inr (Board_onMiss cfg rnd ob w))\<rparr>"

definition constructor_callbacks :: "'a world_scheme callbacks" where
  "constructor_callbacks =
     \<lparr>onGatePassed = (\<lambda>g w. Inl TypeError),
      onPortalEntered = (\<lambda>p w. Inl TypeError),
      onMiss = (\<lambda>ob w. Inl TypeError)\<rparr>"

subsection \<open>\<open>Orb.update\<close>, the calling part (main.js 143-165)\<close>

definition set_orb :: "nat \<Rightarrow> orb \<Rightarrow> 'a world_scheme \<Rightarrow> 'a world_scheme" where
  "set_orb this ob w = w\<lparr>orbs := (orbs w)(this := ob)\<rparr>"

fun gates_loop ::
    "'a world_scheme callbacks \<Rightarrow> gate list \<Rightarrow> nat \<Rightarrow> 'a world_scheme \<Rightarrow> error + 'a world_scheme" where
  "gates_loop cb [] this w = Inr w"
| "gates_loop cb (g # gs) this w =
     (if checkPass g (orbs w this) \<and> gate_id g \<notin> gatePassed (orbs w this) then
        (let ob = orbs w this;
             w1 = set_orb this (ob\<lparr>gatePassed := insert (gate_id g) (gatePassed ob)\<rparr>) w
         in case onGatePassed cb g w1 of
              Inl e \<Rightarrow> Inl e
            | Inr w2 \<Rightarrow> gates_loop cb gs this w2)
      else gates_loop cb gs this w)"

fun portals_loop ::
    "'a world_scheme callbacks \<Rightarrow> portal list \<Rightarrow> nat \<Rightarrow> 'a world_scheme \<Rightarrow> error + 'a world_scheme" where
  "portals_loop cb [] this w = Inr w"
| "portals_loop cb (p # ps) this w =
     (if Portal_contains p (fst (pos (orbs w this))) (snd (pos (orbs w this))) then
        (let w1 = set_orb this ((orbs w this)\<lparr>alive := False\<rparr>) w
         in case onPortalEntered cb p w1 of
              Inl e \<Rightarrow> Inl e
            | Inr w2 \<Rightarrow> portals_loop cb ps this w2)
      else portals_loop cb ps this w)"

definition out_of_bounds ::
    "'a world_scheme callbacks \<Rightarrow> nat \<Rightarrow> 'a world_scheme \<Rightarrow> error + 'a world_scheme" where
  "out_of_bounds cb this w =
     (if snd (pos (orbs w this)) - radius (orbs w this) > VIRTUAL_H + 100 then
        (let w1 = set_orb this ((orbs w this)\<lparr>alive := False\<rparr>) w
         in onMiss cb this w1)
      else Inr w)"

text \<open>\<open>this.update(dt, board)\<close> for the orb at address \<open>this\<close>, with the board's callbacks \<open>cb\<close>.\<close>

definition Orb_update ::
    "config \<Rightarrow> 'a world_scheme callbacks \<Rightarrow> real \<Rightarrow> board \<Rightarrow> nat \<Rightarrow> 'a world_scheme
      \<Rightarrow> error + 'a world_scheme" where
  "Orb_update cfg cb dt b this w =
     (let w1 = set_orb this (motion cfg dt b (orbs w this)) w
      in case gates_loop cb (gates b) this w1 of
           Inl e \<Rightarrow> Inl e
         | Inr w2 \<Rightarrow>
             (case portals_loop cb (portals b) this w2 of
                Inl e \<Rightarrow> Inl e
              | Inr w3 \<Rightarrow> out_of_bounds cb this w3))"

subsection \<open>Launching (main.js 473, 517-545)\<close>

definition launchBase :: vec where
  "launchBase = (VIRTUAL_W / 2, 1220)"

text \<open>\<open>new Orb(...)\<close> takes the next free address; \<open>++gameState.orbIndex\<close> is the new orb's id.\<close>

definition spawnOrb :: "config \<Rightarrow> real \<Rightarrow> real \<Rightarrow> 'a world_scheme \<Rightarrow> 'a world_scheme" where
  "spawnOrb cfg angleRad pwr w =
     (let vx = cos angleRad * pwr;
          vy = sin angleRad * pwr;
          w1 = w\<lparr>orbIndex := orbIndex w + 1\<rparr>;
          a = allocated w1;
          ob = Orb_new cfg (fst launchBase) (snd launchBase) vx vy (orbIndex w1)
      in w1\<lparr>orbs := (orbs w1)(a := ob), allocated := a + 1, currentOrb := Some a\<rparr>)"

definition doFireAuto :: "config \<Rightarrow> 'a world_scheme \<Rightarrow> 'a world_scheme" where
  "doFireAuto cfg w =
     (if currentOrb w \<noteq> None \<or> shotsLeft w \<le> 0 then w
      else
        (let pwr = (fire_max (fire cfg) + fire_min (fire cfg)) / 2;
             angleDeg = - 50 * pi / 180
         in spawnOrb cfg angleDeg pwr w))"

text \<open>\<open>Math.atan2(y, x)\<close>: the argument of the point \<open>(x, y)\<close>, in \<open>(-\<pi>, \<pi>]\<close>, and 0 at the origin.\<close>

definition Math_atan2 :: "real \<Rightarrow> real \<Rightarrow> real" where
  "Math_atan2 b a = Arg (Complex a b)"

definition doFireFromInput :: "config \<Rightarrow> real \<Rightarrow> real \<Rightarrow> 'a world_scheme \<Rightarrow> 'a world_scheme" where
  "doFireFromInput cfg dx dy w =
     (if currentOrb w \<noteq> None \<or> shotsLeft w \<le> 0 then w
      else
        (let len = hypot dx dy;
             t = clamp ((len - 10) / 200) 0 1;
             pwr = fire_min (fire cfg) + t * (fire_max (fire cfg) - fire_min (fire cfg));
             angle = Math_atan2 dy dx;
             angle = angle + pi;
             deg = angle * 180 / pi;
             clampedDeg = clamp deg (- 80) (- 20);
             rad = clampedDeg * pi / 180
         in spawnOrb cfg rad pwr w))"

subsection \<open>The main loop (main.js 569-641)\<close>

text \<open>The flow block of \<open>tick\<close> (575-581).\<close>

definition flow_tick :: "config \<Rightarrow> (nat \<Rightarrow> real) \<Rightarrow> real \<Rightarrow> 'a world_scheme \<Rightarrow> 'a world_scheme" where
  "flow_tick cfg rnd dt w =
     (if isFlow w then
        (let w1 = w\<lparr>flowTimeLeft := flowTimeLeft w - dt\<rparr>
         in if flowTimeLeft w1 \<le> 0 then doFlowExtendDraw cfg rnd (w1\<lparr>isFlow := False\<rparr>)
            else w1)
      else w)"

text \<open>
  \<open>tick(ts)\<close>, without the drawing: the time step, the flow block, the update of the current
  orb against \<open>gameState.board\<close> (a \<open>null\<close> board raises at \<open>board.zones\<close>) and the countdown of
  the flash. \<open>cb\<close> are the callbacks of that board object.
\<close>

definition tick ::
    "config \<Rightarrow> (nat \<Rightarrow> real) \<Rightarrow> 'a world_scheme callbacks \<Rightarrow> real \<Rightarrow> 'a world_scheme
      \<Rightarrow> error + 'a world_scheme" where
  "tick cfg rnd cb ts w =
     (let dtRaw = (ts - lastTs w) / 1000;
          w1 = w\<lparr>lastTs := ts\<rparr>;
          dt = clamp dtRaw 0 (5 / 100);
          w2 = flow_tick cfg rnd dt w1;
          r = (case currentOrb w2 of
                 None \<Rightarrow> Inr w2
               | Some this \<Rightarrow>
                   (case gs_board w2 of
                      None \<Rightarrow> Inl TypeError
                    | Some b \<Rightarrow> Orb_update cfg cb dt b this w2))
      in case r of
           Inl e \<Rightarrow> Inl e
         | Inr w3 \<Rightarrow> Inr (if flashTimer w3 > 0 then w3\<lparr>flashTimer := flashTimer w3 - dt\<rparr> else w3))"

subsection \<open>Starting a round (main.js 376-378, 644-658)\<close>

text \<open>
  \<open>newBoard\<close> keeps the board and drops the generator inside it, which nothing calls
  again. \<open>startNewGame(seedOverride)\<close> takes the values of \<open>Date.now()\<close> and
  \<open>performance.now()\<close> as arguments; \<open>Date.now() & 0xffffffff\<close> is a signed 32-bit value.
\<close>

definition newBoard :: "config \<Rightarrow> 'a world_scheme \<Rightarrow> error + 'a world_scheme" where
  "newBoard cfg w =
     (case Board_new (board_presets cfg) (rngSeed w) of
        Inl e \<Rightarrow> Inl e
      | Inr (b, x) \<Rightarrow> Inr (w\<lparr>gs_board := Some b\<rparr>))"

definition startNewGame ::
    "config \<Rightarrow> int option \<Rightarrow> int \<Rightarrow> real \<Rightarrow> 'a world_scheme \<Rightarrow> error + 'a world_scheme" where
  "startNewGame cfg seedOverride date_now perf_now w =
     (let w1 = w\<lparr>score := 0, shotsLeft := shotsPerGame cfg, energy := 0, combo := 0,
                 isFlow := False, flowTimeLeft := 0, currentOrb := None, orbIndex := 0,
                 recentShots := [],
                 rngSeed := (case seedOverride of
                               Some s \<Rightarrow> s
                             | None \<Rightarrow> sint (word_of_int date_now :: 32 word))\<rparr>
      in case newBoard cfg w1 of
           Inl e \<Rightarrow> Inl e
         | Inr w2 \<Rightarrow> Inr (w2\<lparr>lastTs := perf_now\<rparr>))"

subsection \<open>Notions used in the statements\<close>

text \<open>
  Warps come in linked pairs with consecutive ids from 1: the warp at position \<open>j\<close> has id
  \<open>j + 1\<close>, and its partner is another warp of the array whose partner it is.
\<close>

definition well_paired :: "warp list \<Rightarrow> bool" where
  "well_paired ws \<longleftrightarrow>
     (\<forall>j < length ws. warp_id (ws ! j) = j + 1 \<and>
        (\<exists>k < length ws. k \<noteq> j \<and> partner (ws ! j) = Some k \<and> partner (ws ! k) = Some j))"

text \<open>Whether the warp loop reaches a teleport: the tests of \<open>warps_loop\<close>, without the effect.\<close>

fun warp_hit :: "warp list \<Rightarrow> warp list \<Rightarrow> orb \<Rightarrow> bool" where
  "warp_hit all [] ob = False"
| "warp_hit all (w # ws) ob =
     (if Warp_contains w (fst (pos ob)) (snd (pos ob)) \<and> warpCooldown ob \<le> 0 then
        (case deref_warp all (partner w) of
           Some other \<Rightarrow> True
         | None \<Rightarrow> warp_hit all ws ob)
      else warp_hit all ws ob)"

text \<open>The orb \<open>ob\<close> teleports during the update with step \<open>dt\<close>.\<close>

definition teleports :: "config \<Rightarrow> real \<Rightarrow> board \<Rightarrow> orb \<Rightarrow> bool" where
  "teleports cfg dt b ob = warp_hit (warps b) (warps b) (cool_down dt (pre_warp cfg dt b ob))"

text \<open>The speed of an orb, as \<open>Orb.update\<close> computes it.\<close>

definition speed_of :: "orb \<Rightarrow> real" where
  "speed_of ob = hypot (fst (vel ob)) (snd (vel ob))"

text \<open>Successive updates of the same orb, one per time step, stopping at an exception.\<close>

fun updates ::
    "config \<Rightarrow> 'a world_scheme callbacks \<Rightarrow> board \<Rightarrow> nat \<Rightarrow> real list \<Rightarrow> 'a world_scheme
      \<Rightarrow> error + 'a world_scheme" where
  "updates cfg cb b this [] w = Inr w"
| "updates cfg cb b this (dt # dts) w =
     (case Orb_update cfg cb dt b this w of
        Inl e \<Rightarrow> Inl e
      | Inr w1 \<Rightarrow> updates cfg cb b this dts w1)"




text \<open>
  The fields of an orb that the steps before the callbacks compute; the callbacks part of
  \<open>Orb.update\<close> changes \<open>gatePassed\<close> and \<open>alive\<close> only.
\<close>

definition orb_body :: "orb \<Rightarrow> vec \<times> vec \<times> real \<times> real" where
  "orb_body ob = (pos ob, vel ob, radius ob, warpCooldown ob)"

text \<open>Callbacks that leave the orb objects alone, and callbacks that never raise.\<close>

definition keeps_orbs :: "'a world_scheme callbacks \<Rightarrow> bool" where
  "keeps_orbs cb \<longleftrightarrow>
     (\<forall>g w w'. onGatePassed cb g w = Inr w' \<longrightarrow> orbs w' = orbs w) \<and>
     (\<forall>p w w'. onPortalEntered cb p w = Inr w' \<longrightarrow> orbs w' = orbs w) \<and>
     (\<forall>a w w'. onMiss cb a w = Inr w' \<longrightarrow> orbs w' = orbs w)"

definition never_raises :: "'a world_scheme callbacks \<Rightarrow> bool" where
  "never_raises cb \<longleftrightarrow>
     (\<forall>g w. \<exists>w'. onGatePassed cb g w = Inr w') \<and>
     (\<forall>p w. \<exists>w'. onPortalEntered cb p w = Inr w') \<and>
     (\<forall>a w. \<exists>w'. onMiss cb a w = Inr w')"



text \<open>The energy meter right after the clamped addition of each handler, before any check.\<close>

definition portal_energy :: "config \<Rightarrow> portal \<Rightarrow> 'a world_scheme \<Rightarrow> real" where
  "portal_energy cfg p w =
     clamp (energy w +
            (if portal_kind p = Some Gold then energy_gold (scores_energy (scores cfg))
             else energy_default (scores_energy (scores cfg))) *
            (if isFlow w then energyMultiplier (flow cfg) else 1)) 0 100"

definition miss_energy :: "config \<Rightarrow> 'a world_scheme \<Rightarrow> real" where
  "miss_energy cfg w = clamp (energy w + energy_onMiss (scores_energy (scores cfg))) 0 100"

definition gate_energy :: "config \<Rightarrow> 'a world_scheme \<Rightarrow> real" where
  "gate_energy cfg w = clamp (energy w + energy_gate (scores_energy (scores cfg))) 0 100"

subsection \<open>A sample configuration and state\<close>

text \<open>
  config.json is not among the sources. The properties below hold for every configuration;
  this one serves to run the model on concrete inputs. \<open>sample_world\<close> is the state of a
  fresh round of ten shots with nothing stored, before a board is attached.
\<close>

definition sample_preset :: preset where
  "sample_preset =
     \<lparr>preset_panels = [(100, 400, 300, 450)],
      preset_zones = Some [(0, 600, 720, 100, ''accel'')],
      preset_warps = Some [(100, 300, 30, 600, 800)],
      preset_gates = Some [(200, 700, 320, 700)],
      preset_portals = None\<rparr>"

definition sample_config :: config where
  "sample_config =
     \<lparr>orbRadius = 16, shotsPerGame = 10,
      physics = \<lparr>gravity = 900, v_max = 1400, v_min = 50,
                 accelPerFrame = 102 / 100, dragPerFrame = 98 / 100\<rparr>,
      scores = \<lparr>scores_portals = (\<lambda>k. case k of Blue \<Rightarrow> 100 | Purple \<Rightarrow> 300 | Gold \<Rightarrow> 1000),
                scores_energy = \<lparr>energy_gold = 30, energy_default = 10, energy_onMiss = 5,
                                  energy_gate = 10\<rparr>,
                scores_gate = 50\<rparr>,
      bonus = \<lparr>baseProb = 2 / 10, cap = 5 / 10\<rparr>,
      flow = \<lparr>baseDuration = 10, scoreMultiplier = 2, energyMultiplier = 3 / 2,
              extendProb = 3 / 10, extendSeconds = 3, extendCap = 10\<rparr>,
      warp_cooldown = 1 / 2,
      fire = \<lparr>fire_min = 600, fire_max = 1200\<rparr>,
      board_presets = [sample_preset]\<rparr>"

definition sample_world :: world where
  "sample_world =
     \<lparr>score = 0, shotsLeft = 10, energy = 0, combo = 0, isFlow = False, flowTimeLeft = 0,
      rngSeed = 0, recentShots = [], currentOrb = None, orbIndex = 0, gs_board = None,
      highScore = 0, flashTimer = 0, flashStrong = False, lastTs = 0, oc_highscore = None,
      randoms = 0, orbs = (\<lambda>a. Orb_new sample_config 0 0 0 0 0), allocated = 0\<rparr>"

text \<open>
  \<open>flying p v cd\<close>: the sample state with one orb in flight, at address 0, at position \<open>p\<close>
  with velocity \<open>v\<close> and warp cooldown \<open>cd\<close>. \<open>with_trace\<close> adds an empty trace.
\<close>

definition flying :: "vec \<Rightarrow> vec \<Rightarrow> real \<Rightarrow> world" where
  "flying p v cd =
     sample_world\<lparr>currentOrb := Some 0, orbIndex := 1, allocated := 1,
       orbs := (orbs sample_world)
         (0 := (Orb_new sample_config (fst p) (snd p) (fst v) (snd v) 1)\<lparr>warpCooldown := cd\<rparr>)\<rparr>"


text \<open>The sample configuration without gravity and with a warp cooldown of 0.1 s.\<close>

definition still_config :: config where
  "still_config =
     sample_config\<lparr>physics := (physics sample_config)\<lparr>gravity := 0\<rparr>, warp_cooldown := 1 / 10\<rparr>"

text \<open>A board with one warp pair and nothing else.\<close>

definition warp_board :: board where
  "warp_board =
     \<lparr>panels = [], zones = [],
      warps = gen_warps [(100, 300, 30, 600, 800)] 1 [],
      gates = [], portals = [], seed = 0\<rparr>"



definition plain_board :: board where
  "plain_board = \<lparr>panels = [], zones = [], warps = [], gates = [],
     portals = [Portal_new 60 1170 160 70 (Some Blue), Portal_new 280 1170 160 70 (Some Blue),
                Portal_new 500 1170 160 70 (Some Blue)], seed = 0\<rparr>"

text \<open>The same board with a gate across its first portal.\<close>

definition gate_board :: board where
  "gate_board = plain_board\<lparr>gates := [Gate_new 200 1200 320 1200 1]\<rparr>"

text \<open>The five obstacle collections of a generated board (everything but the stored seed).\<close>

definition obstacles :: "board \<Rightarrow> panel list \<times> zone list \<times> warp list \<times> gate list \<times> portal list" where
  "obstacles b = (panels b, zones b, warps b, gates b, portals b)"

section \<open>Properties of the generator and of board generation\<close>

lemma xorshift_zero: "xorshift 0 = 0"
  by (simp add: xorshift_def)

lemma rng_zero: "rng 0 = (0, 0)"
  by (simp add: rng_def xorshift_zero)

lemma jitter_zero: "jitter v 0 = (v - 30, 0)"
  by (simp add: jitter_def rng_zero)

lemma gen_panels_zero:
  "gen_panels segs 0 =
     (map (\<lambda>(s0, s1, s2, s3). Panel_new (s0 - 30) (s1 - 30) (s2 - 30) (s3 - 30)) segs, 0)"
  by (induction segs) (auto simp: jitter_zero)

lemma gen_portals_zero:
  "gen_portals gap i n 0 =
     (map (\<lambda>j. Portal_new (gap + real j * (160 + gap)) (VIRTUAL_H - 110) 160 70 (Some Blue))
        [i..<i + n], 0)"
  by (induction n arbitrary: i) (auto simp: rng_zero kinds_at_def kinds_def upt_rec)

lemma rand_cong: "s1 mod 2 ^ 32 = s2 mod 2 ^ 32 \<Longrightarrow> rand s1 = rand s2"
  by (simp add: rand_def word_of_int_eq_iff take_bit_eq_mod)

text \<open>
  The board depends on the seed only through the generator state: the stored seed is
  copied into the \<open>seed\<close> field and nowhere else.
\<close>

lemma generate_obstacles_seed:
  "map_sum id (\<lambda>(b, x). (obstacles b, x)) (generate presets s1 x0) =
   map_sum id (\<lambda>(b, x). (obstacles b, x)) (generate presets s2 x0)"
  by (simp add: generate_def obstacles_def Let_def split: prod.splits)

text \<open>
  C10. With seed 0 the generator state stays 0 and every draw is 0. So a round started
  with seed override 0 (with at least one preset configured) gets the board generated
  from seed 0, which takes preset 0, moves every panel coordinate by exactly -30 and makes
  every portal blue.
\<close>

theorem C10_seed_zero_degenerate:
  assumes "board_presets cfg \<noteq> []"
  shows "rng (rand 0) = (0, rand 0) \<and>
     (\<exists>w' b. startNewGame cfg (Some 0) date_now perf_now w = Inr w' \<and> gs_board w' = Some b \<and>
        Board_new (board_presets cfg) 0 = Inr (b, rand 0) \<and>
        panels b = map (\<lambda>(s0, s1, s2, s3). Panel_new (s0 - 30) (s1 - 30) (s2 - 30) (s3 - 30))
                     (preset_panels (board_presets cfg ! 0)) \<and>
        map portal_kind (portals b) = replicate (length (portals b)) (Some Blue))"
proof -
  have r0: "rand 0 = 0"
    by (simp add: rand_def)
  have len: "0 < length (board_presets cfg)"
    using assms by simp
  have kinds_blue:
    "map (portal_kind \<circ> (\<lambda>j. Portal_new (f j) (VIRTUAL_H - 110) 160 70 (Some Blue))) js
      = replicate (length js) (Some Blue)" for f js
    by (induction js) (simp_all add: Portal_new_def)
  obtain b where b: "Board_new (board_presets cfg) 0 = Inr (b, 0)"
    using len
    by (simp add: r0 rng_zero Board_new_def generate_def gen_panels_zero gen_portals_zero Let_def)
  have pb: "panels b = map (\<lambda>(s0, s1, s2, s3). Panel_new (s0 - 30) (s1 - 30) (s2 - 30) (s3 - 30))
                     (preset_panels (board_presets cfg ! 0))"
    and kb: "map portal_kind (portals b) = replicate (length (portals b)) (Some Blue)"
    using b len
    by (auto simp: r0 rng_zero Board_new_def generate_def gen_panels_zero gen_portals_zero
        kinds_blue Let_def)
  have "\<exists>w'. startNewGame cfg (Some 0) date_now perf_now w = Inr w' \<and> gs_board w' = Some b"
    by (simp add: startNewGame_def newBoard_def b Let_def)
  then show ?thesis
    using b pb kb by (auto simp: r0 rng_zero)
qed

theorem C10_seed_zero_degenerate_witness:
  "board_presets sample_config \<noteq> [] \<and>
   rng (rand 0) = (0, rand 0) \<and>
   (\<exists>w' b. startNewGame sample_config (Some 0) 1700000000000 0 sample_world = Inr w' \<and>
        gs_board w' = Some b \<and>
        Board_new (board_presets sample_config) 0 = Inr (b, rand 0) \<and>
        panels b = [Panel_new 70 370 270 420] \<and>
        map portal_kind (portals b) = replicate (length (portals b)) (Some Blue))"
proof -
  have a: "board_presets sample_config \<noteq> []"
    by (simp add: sample_config_def)
  have p: "map (\<lambda>(s0, s1, s2, s3). Panel_new (s0 - 30) (s1 - 30) (s2 - 30) (s3 - 30))
             (preset_panels (board_presets sample_config ! 0)) = [Panel_new 70 370 270 420]"
    by (simp add: sample_config_def sample_preset_def)
  from C10_seed_zero_degenerate [OF a, of 1700000000000 0 sample_world] a show ?thesis
    unfolding p by blast
qed

text \<open>The shape of what the warp and gate loops build.\<close>

lemma well_paired_step:
  assumes "well_paired acc"
  shows "well_paired (acc @ [(Warp_new a b r (length acc + 1))\<lparr>partner := Some (length acc + 1)\<rparr>,
                             (Warp_new c d r (length acc + 2))\<lparr>partner := Some (length acc)\<rparr>])"
  unfolding well_paired_def
proof (intro allI impI)
  fix j
  let ?wa = "(Warp_new a b r (length acc + 1))\<lparr>partner := Some (length acc + 1)\<rparr>"
  let ?wb = "(Warp_new c d r (length acc + 2))\<lparr>partner := Some (length acc)\<rparr>"
  let ?all = "acc @ [?wa, ?wb]"
  assume j: "j < length ?all"
  consider "j < length acc" | "j = length acc" | "j = length acc + 1"
    using j by force
  then show "warp_id (?all ! j) = j + 1 \<and>
        (\<exists>k < length ?all. k \<noteq> j \<and> partner (?all ! j) = Some k \<and> partner (?all ! k) = Some j)"
  proof cases
    case 1
    with assms obtain k where k: "k < length acc" "k \<noteq> j" "partner (acc ! j) = Some k" "partner (acc ! k) = Some j"
      and idj: "warp_id (acc ! j) = j + 1"
      unfolding well_paired_def by blast
    have "k < length ?all \<and> k \<noteq> j \<and> partner (?all ! j) = Some k \<and> partner (?all ! k) = Some j"
      using 1 k by (simp add: nth_append)
    then show ?thesis using 1 idj by (auto simp: nth_append)
  next
    case 2
    have "length acc + 1 < length ?all \<and> length acc + 1 \<noteq> j \<and>
        partner (?all ! j) = Some (length acc + 1) \<and> partner (?all ! (length acc + 1)) = Some j"
      using 2 by (simp add: nth_append Warp_new_def)
    moreover have "warp_id (?all ! j) = j + 1" using 2 by (simp add: nth_append Warp_new_def)
    ultimately show ?thesis by blast
  next
    case 3
    have "length acc < length ?all \<and> length acc \<noteq> j \<and>
        partner (?all ! j) = Some (length acc) \<and> partner (?all ! (length acc)) = Some j"
      using 3 by (simp add: nth_append Warp_new_def)
    moreover have "warp_id (?all ! j) = j + 1" using 3 by (simp add: nth_append Warp_new_def)
    ultimately show ?thesis by blast
  qed
qed

lemma gen_warps_paired:
  "well_paired acc \<Longrightarrow> wid = length acc + 1 \<Longrightarrow> well_paired (gen_warps ws wid acc)"
proof (induction ws arbitrary: wid acc)
  case Nil
  then show ?case by simp
next
  case (Cons w ws)
  obtain a b r c d where w: "w = (a, b, r, c, d)" by (cases w)
  have "well_paired (acc @ [(Warp_new a b r (length acc + 1))\<lparr>partner := Some (length acc + 1)\<rparr>,
                             (Warp_new c d r (length acc + 2))\<lparr>partner := Some (length acc)\<rparr>])"
    by (rule well_paired_step [OF Cons.prems(1)])
  then have "well_paired (gen_warps ws (length acc + 3)
      (acc @ [(Warp_new a b r (length acc + 1))\<lparr>partner := Some (length acc + 1)\<rparr>,
              (Warp_new c d r (length acc + 2))\<lparr>partner := Some (length acc)\<rparr>]))"
    by (rule Cons.IH) simp
  then show ?case using Cons.prems(2) by (simp add: w Let_def numeral_3_eq_3 add.commute)
qed

lemma gen_gates_ids:
  "i < length (gen_gates gs gid) \<Longrightarrow> gate_id (gen_gates gs gid ! i) = gid + i"
proof (induction gs arbitrary: gid i)
  case Nil
  then show ?case by simp
next
  case (Cons g gs)
  obtain a b c d where g: "g = (a, b, c, d)" by (cases g)
  show ?case
  proof (cases i)
    case 0
    then show ?thesis by (simp add: g Gate_new_def)
  next
    case (Suc k)
    with Cons.prems have "k < length (gen_gates gs (gid + 1))" by (simp add: g)
    then have "gate_id (gen_gates gs (gid + 1) ! k) = gid + 1 + k" by (rule Cons.IH)
    then show ?thesis using Suc by (simp add: g)
  qed
qed

lemma generate_shapes:
  assumes "generate presets sd x = Inr (b, x')"
  shows "\<exists>ws gs. warps b = gen_warps ws 1 [] \<and> gates b = gen_gates gs 1"
proof -
  obtain r x1 where r: "rng x = (r, x1)" by (cases "rng x")
  define pr where "pr = presets ! nat \<lfloor>r * real (length presets)\<rfloor>"
  obtain ps x2 where p: "gen_panels (preset_panels pr) x1 = (ps, x2)"
    by (cases "gen_panels (preset_panels pr) x1")
  define cnt where "cnt = (case preset_portals pr of None \<Rightarrow> 3 | Some c \<Rightarrow> if c = 0 then 3 else c)"
  obtain qs x3 where q: "gen_portals ((VIRTUAL_W - real cnt * 160) / (real cnt + 1)) 0 cnt x2 = (qs, x3)"
    by (cases "gen_portals ((VIRTUAL_W - real cnt * 160) / (real cnt + 1)) 0 cnt x2")
  from assms have inr: "nat \<lfloor>r * real (length presets)\<rfloor> < length presets"
    by (simp add: generate_def r Let_def split: if_splits)
  from assms have "b = \<lparr>panels = ps,
      zones = gen_zones (case preset_zones pr of None \<Rightarrow> [] | Some l \<Rightarrow> l),
      warps = gen_warps (case preset_warps pr of None \<Rightarrow> [] | Some l \<Rightarrow> l) 1 [],
      gates = gen_gates (case preset_gates pr of None \<Rightarrow> [] | Some l \<Rightarrow> l) 1,
      portals = qs, seed = sd\<rparr>"
    using inr p q
    by (simp add: generate_def r Let_def pr_def [symmetric] cnt_def [symmetric])
  then show ?thesis by simp blast
qed

lemma generated_structure:
  assumes "Board_new presets sd = Inr (b, x)"
  shows "well_paired (warps b) \<and> (\<forall>i < length (gates b). gate_id (gates b ! i) = i + 1)"
proof -
  from assms obtain ws gs where s: "warps b = gen_warps ws 1 []" "gates b = gen_gates gs 1"
    unfolding Board_new_def using generate_shapes by blast
  have e: "well_paired []" by (simp add: well_paired_def)
  have "well_paired (gen_warps ws 1 [])"
    by (rule gen_warps_paired [OF e]) simp
  moreover have "\<forall>i < length (gen_gates gs 1). gate_id (gen_gates gs 1 ! i) = i + 1"
    using gen_gates_ids [of _ gs 1] by simp
  ultimately show ?thesis by (simp add: s)
qed

text \<open>
  C9. Two boards generated from seeds that agree as 32-bit values (the constructor reduces
  the seed with \<open>>>> 0\<close>) under the same presets have identical obstacle collections and
  leave the generator in the same state; generation fails for one exactly when it fails
  for the other.
\<close>

theorem C9_generation_reproducible:
  assumes "s1 mod 2 ^ 32 = s2 mod 2 ^ 32"
  shows "map_sum id (\<lambda>(b, x). (obstacles b, x)) (Board_new presets s1) =
         map_sum id (\<lambda>(b, x). (obstacles b, x)) (Board_new presets s2)"
  unfolding Board_new_def rand_cong [OF assms]
  by (rule generate_obstacles_seed)

theorem C9_generation_reproducible_witness:
  "(- 1 :: int) mod 2 ^ 32 = 4294967295 mod 2 ^ 32 \<and>
   map_sum id (\<lambda>(b, x). (obstacles b, x))
     (Board_new [\<lparr>preset_panels = [(100, 200, 300, 400)], preset_zones = None,
                  preset_warps = Some [(10, 20, 30, 40, 50)], preset_gates = None,
                  preset_portals = None\<rparr>] (- 1)) =
   map_sum id (\<lambda>(b, x). (obstacles b, x))
     (Board_new [\<lparr>preset_panels = [(100, 200, 300, 400)], preset_zones = None,
                  preset_warps = Some [(10, 20, 30, 40, 50)], preset_gates = None,
                  preset_portals = None\<rparr>] 4294967295)"
  using C9_generation_reproducible
    [of "- 1" 4294967295
        "[\<lparr>preset_panels = [(100, 200, 300, 400)], preset_zones = None,
            preset_warps = Some [(10, 20, 30, 40, 50)], preset_gates = None,
            preset_portals = None\<rparr>]"]
  by simp

section \<open>Properties of the session handlers\<close>

lemma clamp_bounds: "a \<le> b \<Longrightarrow> a \<le> clamp v a b \<and> clamp v a b \<le> b"
  by (simp add: clamp_def)

lemma doEnergyCheck_frame:
  "combo (doEnergyCheck cfg rnd w) = combo w"
  "score (doEnergyCheck cfg rnd w) = score w"
  "highScore (doEnergyCheck cfg rnd w) = highScore w"
  "oc_highscore (doEnergyCheck cfg rnd w) = oc_highscore w"
  "currentOrb (doEnergyCheck cfg rnd w) = currentOrb w"
  "shotsLeft (doEnergyCheck cfg rnd w) = shotsLeft w"
  "recentShots (doEnergyCheck cfg rnd w) = recentShots w"
  "orbs (doEnergyCheck cfg rnd w) = orbs w"
  by (simp_all add: doEnergyCheck_def Math_random_def playBonusAnimation_def enterFlow_def Let_def)

lemma record_shot_frame:
  "combo (record_shot s w) = combo w"
  "score (record_shot s w) = score w"
  "highScore (record_shot s w) = highScore w"
  "oc_highscore (record_shot s w) = oc_highscore w"
  "currentOrb (record_shot s w) = currentOrb w"
  "shotsLeft (record_shot s w) = shotsLeft w"
  "orbs (record_shot s w) = orbs w"
  "energy (record_shot s w) = energy w"
  "randoms (record_shot s w) = randoms w"
  "isFlow (record_shot s w) = isFlow w"
  by (simp_all add: record_shot_def Let_def)

lemma energy_doEnergyCheck:
  "energy (doEnergyCheck cfg rnd w) = (if energy w \<ge> 100 then 0 else energy w)"
  by (simp add: doEnergyCheck_def Math_random_def playBonusAnimation_def enterFlow_def Let_def)

lemma randoms_doEnergyCheck:
  "randoms (doEnergyCheck cfg rnd w) = (if energy w \<ge> 100 then randoms w + 1 else randoms w)"
  by (simp add: doEnergyCheck_def Math_random_def playBonusAnimation_def enterFlow_def Let_def)

lemma energy_onPortalEntered:
  "energy (Board_onPortalEntered cfg rnd p w) =
     (if portal_energy cfg p w \<ge> 100 then 0 else portal_energy cfg p w)"
  by (simp add: Board_onPortalEntered_def energy_doEnergyCheck Let_def portal_energy_def
      record_shot_frame)

lemma randoms_onPortalEntered:
  "randoms (Board_onPortalEntered cfg rnd p w) =
     (if portal_energy cfg p w \<ge> 100 then randoms w + 1 else randoms w)"
  by (simp add: Board_onPortalEntered_def randoms_doEnergyCheck Let_def portal_energy_def
      record_shot_frame)

lemma energy_onMiss:
  "energy (Board_onMiss cfg rnd a w) = (if miss_energy cfg w \<ge> 100 then 0 else miss_energy cfg w)"
  by (simp add: Board_onMiss_def energy_doEnergyCheck Let_def miss_energy_def record_shot_frame)

lemma randoms_onMiss:
  "randoms (Board_onMiss cfg rnd a w) =
     (if miss_energy cfg w \<ge> 100 then randoms w + 1 else randoms w)"
  by (simp add: Board_onMiss_def randoms_doEnergyCheck Let_def miss_energy_def record_shot_frame)

lemma energy_onGatePassed: "energy (Board_onGatePassed cfg g w) = gate_energy cfg w"
  by (simp add: Board_onGatePassed_def gate_energy_def Let_def)

lemma randoms_onGatePassed: "randoms (Board_onGatePassed cfg g w) = randoms w"
  by (simp add: Board_onGatePassed_def Let_def)

lemma energy_ranges:
  "0 \<le> portal_energy cfg p w" "portal_energy cfg p w \<le> 100"
  "0 \<le> miss_energy cfg w" "miss_energy cfg w \<le> 100"
  "0 \<le> gate_energy cfg w" "gate_energy cfg w \<le> 100"
  by (simp_all add: portal_energy_def miss_energy_def gate_energy_def clamp_def)

subsection \<open>Flow expiry\<close>

text \<open>
  What the flow block does at expiry, for every state: flow goes off, one value is drawn,
  and a successful draw only rewrites \<open>flowTimeLeft\<close>. Nothing sets \<open>isFlow\<close> again.
\<close>

lemma flow_tick_expiry:
  assumes "isFlow w" and "flowTimeLeft w - dt \<le> 0"
  shows "\<not> isFlow (flow_tick cfg rnd dt w)"
    and "randoms (flow_tick cfg rnd dt w) = randoms w + 1"
    and "flowTimeLeft (flow_tick cfg rnd dt w) =
           (if rnd (randoms w) < extendProb (flow cfg)
            then min (flowTimeLeft w - dt + extendSeconds (flow cfg)) (extendCap (flow cfg))
            else flowTimeLeft w - dt)"
  using assms by (simp_all add: flow_tick_def doFlowExtendDraw_def Math_random_def Let_def)

text \<open>
  C1. The code at the failing input: flow is active with 0.01 s left, no orb is in flight,
  the tick comes 50 ms after the last one and \<open>Math.random()\<close> returns 0, below the extend
  probability 0.3. The tick ends with the extension written (-0.04 + 3 = 2.96 s) and with
  \<open>isFlow\<close> false: the successful extend draw does not re-activate flow.
\<close>

theorem C1_extend_draw_leaves_flow_off:
  "map_sum id (\<lambda>w. (isFlow w, flowTimeLeft w, randoms w))
     (tick sample_config (\<lambda>n. 0) (prototype_callbacks sample_config (\<lambda>n. 0)) 50
        (sample_world\<lparr>isFlow := True, flowTimeLeft := 1 / 100\<rparr>)) =
   Inr (False, 296 / 100, 1)"
  by (simp add: tick_def flow_tick_def doFlowExtendDraw_def Math_random_def Let_def
      sample_world_def sample_config_def clamp_def)

subsection \<open>Energy\<close>

text \<open>
  C2, as the claim states it, fails at a gate: with the meter at 95 and a gate worth 10,
  the gate-passed handler leaves the meter at 100, resets nothing and draws nothing.
\<close>

theorem C2_gate_leaves_energy_full:
  "energy (Board_onGatePassed sample_config (Gate_new 200 700 320 700 1)
             (sample_world\<lparr>energy := 95\<rparr>)) = 100 \<and>
   randoms (Board_onGatePassed sample_config (Gate_new 200 700 320 700 1)
              (sample_world\<lparr>energy := 95\<rparr>)) =
     randoms (sample_world\<lparr>energy := 95\<rparr>)"
  by (simp add: Board_onGatePassed_def sample_config_def sample_world_def clamp_def Let_def)

text \<open>
  C2, amended. After each of the three handlers the meter is in [0, 100], whatever it was
  before. The portal-entered and the miss handlers run the check: when their clamped
  addition has brought the meter to 100 they reset it to 0 and draw exactly one value,
  otherwise they draw none, so they always leave the meter below 100. The gate-passed
  handler only adds and clamps: it draws nothing and can leave the meter at 100.
\<close>

theorem C2_energy_check_on_portal_and_miss:
  "0 \<le> energy (Board_onPortalEntered cfg rnd p w) \<and>
   energy (Board_onPortalEntered cfg rnd p w) < 100 \<and>
   energy (Board_onPortalEntered cfg rnd p w) =
     (if portal_energy cfg p w = 100 then 0 else portal_energy cfg p w) \<and>
   randoms (Board_onPortalEntered cfg rnd p w) =
     randoms w + (if portal_energy cfg p w = 100 then 1 else 0) \<and>
   0 \<le> energy (Board_onMiss cfg rnd a w) \<and>
   energy (Board_onMiss cfg rnd a w) < 100 \<and>
   energy (Board_onMiss cfg rnd a w) =
     (if miss_energy cfg w = 100 then 0 else miss_energy cfg w) \<and>
   randoms (Board_onMiss cfg rnd a w) =
     randoms w + (if miss_energy cfg w = 100 then 1 else 0) \<and>
   0 \<le> energy (Board_onGatePassed cfg g w) \<and>
   energy (Board_onGatePassed cfg g w) \<le> 100 \<and>
   energy (Board_onGatePassed cfg g w) = gate_energy cfg w \<and>
   randoms (Board_onGatePassed cfg g w) = randoms w"
proof -
  have p: "0 \<le> portal_energy cfg p w" "portal_energy cfg p w \<le> 100"
    and m: "0 \<le> miss_energy cfg w" "miss_energy cfg w \<le> 100"
    and g: "0 \<le> gate_energy cfg w" "gate_energy cfg w \<le> 100"
    by (rule energy_ranges)+
  show ?thesis
    using p m g
    by (simp add: energy_onPortalEntered randoms_onPortalEntered energy_onMiss randoms_onMiss
        energy_onGatePassed randoms_onGatePassed)
qed

subsection \<open>High score\<close>

text \<open>Only the portal-entered handler compares the score with the high score.\<close>

lemma highScore_onGatePassed:
  "highScore (Board_onGatePassed cfg g w) = highScore w"
  "oc_highscore (Board_onGatePassed cfg g w) = oc_highscore w"
  "score (Board_onGatePassed cfg g w) = score w + scores_gate (scores cfg)"
  by (simp_all add: Board_onGatePassed_def Let_def)

lemma highScore_onMiss:
  "highScore (Board_onMiss cfg rnd a w) = highScore w"
  "oc_highscore (Board_onMiss cfg rnd a w) = oc_highscore w"
  "score (Board_onMiss cfg rnd a w) = score w"
  by (simp_all add: Board_onMiss_def Let_def doEnergyCheck_frame record_shot_frame)

text \<open>
  C3. The code at the failing input: nothing stored, high score 0, an orb in flight. It
  passes a gate worth 50 and then leaves the arena. The shot is over with score 50, above
  the high score, and neither \<open>highScore\<close> nor the stored item has been written.
\<close>

theorem C3_gate_score_then_miss_not_persisted:
  "(let w1 = Board_onGatePassed sample_config (Gate_new 200 700 320 700 1)
               (sample_world\<lparr>currentOrb := Some 0\<rparr>);
        w2 = Board_onMiss sample_config (\<lambda>n. 0) 0 w1
    in (score w2, highScore w2, oc_highscore w2, currentOrb w2, shotsLeft w2)) =
   (50, 0, None, None, 9)"
  by (simp add: Board_onGatePassed_def Board_onMiss_def doEnergyCheck_def record_shot_def
      sample_config_def sample_world_def clamp_def Let_def)

subsection \<open>Combo\<close>


subsection \<open>Launching\<close>

lemma spawnOrb_result:
  "currentOrb (spawnOrb cfg a p w) = Some (allocated w) \<and>
   orbs (spawnOrb cfg a p w) (allocated w) =
     Orb_new cfg (fst launchBase) (snd launchBase) (cos a * p) (sin a * p) (orbIndex w + 1) \<and>
   shotsLeft (spawnOrb cfg a p w) = shotsLeft w"
  by (simp add: spawnOrb_def Let_def)

text \<open>
  The swipe angle \<open>atan2(dy, dx) + \<pi>\<close> is positive, so the clamp always yields its upper
  bound: every swipe launches at -20 degrees.
\<close>

lemma swipe_angle:
  "clamp ((Math_atan2 dy dx + pi) * 180 / pi) (- 80) (- 20) = - 20"
proof -
  have "- pi < Math_atan2 dy dx"
    using Arg_bounded [of "Complex dx dy"] by (simp add: Math_atan2_def)
  then have "0 < (Math_atan2 dy dx + pi) * 180 / pi" by simp
  then show ?thesis by (simp add: clamp_def)
qed

text \<open>
  C4, as the claim states it, fails: \<open>spawnOrb\<close> with power 0 and angle 0 (outside
  -80..-20 degrees) creates an orb, at rest at the launch point.
\<close>

theorem C4_zero_power_launch_creates_orb:
  "currentOrb (spawnOrb sample_config 0 0 sample_world) = Some 0 \<and>
   vel (orbs (spawnOrb sample_config 0 0 sample_world) 0) = (0, 0) \<and>
   pos (orbs (spawnOrb sample_config 0 0 sample_world) 0) = launchBase \<and>
   shotsLeft (spawnOrb sample_config 0 0 sample_world) = shotsLeft sample_world"
  by (simp add: spawnOrb_def sample_world_def Let_def Orb_new_def)

text \<open>
  C4, amended. A swipe is rejected (the state is unchanged) exactly when an orb is in
  flight or no shot is left. Otherwise it always creates an orb: the angle is clamped into
  -80..-20 degrees, not checked, the power is taken from the swipe length into
  [\<open>fire.min\<close>, \<open>fire.max\<close>] with no test against 0, and the shot count is unchanged.
\<close>

theorem C4_swipe_clamps_and_launches:
  assumes "fire_min (fire cfg) \<le> fire_max (fire cfg)"
  shows "(currentOrb w \<noteq> None \<or> shotsLeft w \<le> 0 \<longrightarrow> doFireFromInput cfg dx dy w = w) \<and>
         (currentOrb w = None \<and> shotsLeft w > 0 \<longrightarrow>
            (\<exists>a deg pwr.
               currentOrb (doFireFromInput cfg dx dy w) = Some a \<and>
               - 80 \<le> deg \<and> deg \<le> - 20 \<and>
               fire_min (fire cfg) \<le> pwr \<and> pwr \<le> fire_max (fire cfg) \<and>
               vel (orbs (doFireFromInput cfg dx dy w) a) =
                 (cos (deg * pi / 180) * pwr, sin (deg * pi / 180) * pwr) \<and>
               shotsLeft (doFireFromInput cfg dx dy w) = shotsLeft w))"
proof (intro conjI impI)
  assume "currentOrb w \<noteq> None \<or> shotsLeft w \<le> 0"
  then show "doFireFromInput cfg dx dy w = w"
    by (auto simp: doFireFromInput_def)
next
  assume free: "currentOrb w = None \<and> shotsLeft w > 0"
  define t where "t = clamp ((hypot dx dy - 10) / 200) 0 1"
  define pwr where "pwr = fire_min (fire cfg) + t * (fire_max (fire cfg) - fire_min (fire cfg))"
  define deg where "deg = clamp ((Math_atan2 dy dx + pi) * 180 / pi) (- 80) (- 20)"
  have t: "0 \<le> t" "t \<le> 1"
    by (simp_all add: t_def clamp_def)
  have p1: "fire_min (fire cfg) \<le> pwr"
    using t assms by (simp add: pwr_def)
  have "t * (fire_max (fire cfg) - fire_min (fire cfg)) \<le> 1 * (fire_max (fire cfg) - fire_min (fire cfg))"
    using t assms by (intro mult_right_mono) simp_all
  then have p2: "pwr \<le> fire_max (fire cfg)"
    by (simp add: pwr_def)
  have d: "- 80 \<le> deg" "deg \<le> - 20"
    by (simp_all add: deg_def clamp_def)
  have eq: "doFireFromInput cfg dx dy w = spawnOrb cfg (deg * pi / 180) pwr w"
    using free unfolding doFireFromInput_def Let_def deg_def pwr_def t_def by simp
  show "\<exists>a deg pwr.
               currentOrb (doFireFromInput cfg dx dy w) = Some a \<and>
               - 80 \<le> deg \<and> deg \<le> - 20 \<and>
               fire_min (fire cfg) \<le> pwr \<and> pwr \<le> fire_max (fire cfg) \<and>
               vel (orbs (doFireFromInput cfg dx dy w) a) =
                 (cos (deg * pi / 180) * pwr, sin (deg * pi / 180) * pwr) \<and>
               shotsLeft (doFireFromInput cfg dx dy w) = shotsLeft w"
    unfolding eq
    apply (rule exI [of _ "allocated w"], rule exI [of _ deg], rule exI [of _ pwr])
    using p1 p2 d spawnOrb_result [of cfg "deg * pi / 180" pwr w]
    by (simp add: Orb_new_def)
qed

theorem C4_swipe_clamps_and_launches_witness:
  "fire_min (fire sample_config) \<le> fire_max (fire sample_config) \<and>
   currentOrb sample_world = None \<and> shotsLeft sample_world > 0 \<and>
   (\<exists>a deg pwr.
      currentOrb (doFireFromInput sample_config 100 0 sample_world) = Some a \<and>
      - 80 \<le> deg \<and> deg \<le> - 20 \<and>
      fire_min (fire sample_config) \<le> pwr \<and> pwr \<le> fire_max (fire sample_config) \<and>
      vel (orbs (doFireFromInput sample_config 100 0 sample_world) a) =
        (cos (deg * pi / 180) * pwr, sin (deg * pi / 180) * pwr) \<and>
      shotsLeft (doFireFromInput sample_config 100 0 sample_world) = shotsLeft sample_world)"
proof -
  have a: "fire_min (fire sample_config) \<le> fire_max (fire sample_config)"
    by (simp add: sample_config_def)
  have b: "currentOrb sample_world = None \<and> shotsLeft sample_world > 0"
    by (simp add: sample_world_def)
  show ?thesis
    using a b C4_swipe_clamps_and_launches [OF a, of sample_world 100 0] by blast
qed

section \<open>Properties of the orb step\<close>

subsection \<open>The speed clamp\<close>

lemma hypot_nonneg: "0 \<le> hypot a b"
  by (simp add: hypot_def)

lemma hypot_scale: "0 \<le> s \<Longrightarrow> hypot (a * s) (b * s) = s * hypot a b"
proof -
  assume s: "0 \<le> s"
  have "a * s * (a * s) + b * s * (b * s) = s\<^sup>2 * (a * a + b * b)"
    by (simp add: power2_eq_square algebra_simps)
  then have "hypot (a * s) (b * s) = sqrt (s\<^sup>2 * (a * a + b * b))"
    by (simp add: hypot_def)
  also have "\<dots> = \<bar>s\<bar> * sqrt (a * a + b * b)"
    by (simp add: real_sqrt_mult)
  finally show ?thesis using s by (simp add: hypot_def)
qed

lemma hypot_zero_left: "hypot 0 b = \<bar>b\<bar>"
  by (simp add: hypot_def)

lemma hypot_zero_right: "hypot a 0 = \<bar>a\<bar>"
  by (simp add: hypot_def)

lemma speed_scale_vel: "0 \<le> s \<Longrightarrow> speed_of (scale_vel s ob) = s * speed_of ob"
  by (simp add: speed_of_def scale_vel_def hypot_scale)

lemma clamp_speed_cases:
  assumes "0 < v_min (physics cfg)" "v_min (physics cfg) \<le> v_max (physics cfg)"
  shows "speed_of (clamp_speed cfg ob) =
     (if speed_of ob > v_max (physics cfg) then v_max (physics cfg)
      else if speed_of ob < v_min (physics cfg)
           then v_min (physics cfg) * speed_of ob / (speed_of ob + 1 / 1000000)
      else speed_of ob)"
proof -
  have nn: "0 \<le> speed_of ob" by (simp add: speed_of_def hypot_nonneg)
  show ?thesis
  proof (cases "speed_of ob > v_max (physics cfg)")
    case True
    then have pos: "0 < speed_of ob" using assms by linarith
    have "clamp_speed cfg ob = scale_vel (v_max (physics cfg) / speed_of ob) ob"
      using True assms by (simp add: clamp_speed_def Let_def speed_of_def)
    moreover have "0 \<le> v_max (physics cfg) / speed_of ob" using assms pos by simp
    ultimately show ?thesis using True pos by (simp add: speed_scale_vel)
  next
    case False
    show ?thesis
    proof (cases "speed_of ob < v_min (physics cfg)")
      case True
      have "clamp_speed cfg ob = scale_vel (v_min (physics cfg) / (speed_of ob + 1 / 1000000)) ob"
        using True False by (simp add: clamp_speed_def Let_def speed_of_def)
      moreover have "0 \<le> v_min (physics cfg) / (speed_of ob + 1 / 1000000)" using assms nn by simp
      ultimately show ?thesis using True False by (simp add: speed_scale_vel)
    next
      case F2: False
      then show ?thesis using False by (simp add: clamp_speed_def Let_def speed_of_def)
    qed
  qed
qed


text \<open>
  C6, as the claim states it, fails although 0 < v_min \<le> v_max: an orb moving straight up
  at 45 units/s is stopped by gravity (900 for 0.05 s), and the clamp multiplies
  the zero velocity by v_min / 0.000001, which leaves it zero. The speed after the clamp
  is 0, not within [50, 1400].
\<close>

theorem C6_orb_at_rest_stays_at_rest:
  "0 < v_min (physics sample_config) \<and>
   v_min (physics sample_config) \<le> v_max (physics sample_config) \<and>
   speed_of (clamp_speed sample_config (apply_gravity sample_config (5 / 100)
      (Orb_new sample_config 360 1220 0 (- 45) 1))) = 0"
  by (simp add: sample_config_def clamp_speed_def apply_gravity_def Orb_new_def speed_of_def
      scale_vel_def hypot_zero_left Let_def)

text \<open>
  C6, amended. Assuming 0 < v_min \<le> v_max, the speed after the clamp step of every tick is
  at most v_max, and it is at least v_min whenever the speed after gravity was. A speed
  \<open>s\<close> below v_min becomes v_min * s / (s + 0.000001), which is strictly below v_min (and 0
  for an orb at rest).
\<close>

theorem C6_speed_after_clamp:
  assumes "0 < v_min (physics cfg)" "v_min (physics cfg) \<le> v_max (physics cfg)"
  shows "speed_of (clamp_speed cfg (apply_gravity cfg dt ob)) \<le> v_max (physics cfg) \<and>
     (v_min (physics cfg) \<le> speed_of (apply_gravity cfg dt ob) \<longrightarrow>
        v_min (physics cfg) \<le> speed_of (clamp_speed cfg (apply_gravity cfg dt ob))) \<and>
     (speed_of (apply_gravity cfg dt ob) < v_min (physics cfg) \<longrightarrow>
        speed_of (clamp_speed cfg (apply_gravity cfg dt ob)) =
          v_min (physics cfg) * speed_of (apply_gravity cfg dt ob) /
            (speed_of (apply_gravity cfg dt ob) + 1 / 1000000) \<and>
        speed_of (clamp_speed cfg (apply_gravity cfg dt ob)) < v_min (physics cfg))"
proof -
  define s where "s = speed_of (apply_gravity cfg dt ob)"
  have nn: "0 \<le> s"
    by (simp add: s_def speed_of_def hypot_nonneg)
  have lt: "v_min (physics cfg) * s / (s + 1 / 1000000) < v_min (physics cfg)"
  proof -
    have "s / (s + 1 / 1000000) < 1"
      using nn by (simp add: divide_less_eq)
    then have "v_min (physics cfg) * (s / (s + 1 / 1000000)) < v_min (physics cfg) * 1"
      using assms(1) by (intro mult_strict_left_mono) simp_all
    then show ?thesis by simp
  qed
  show ?thesis
    unfolding clamp_speed_cases [OF assms] s_def [symmetric]
    using assms lt by auto
qed

theorem C6_speed_after_clamp_witness:
  "0 < v_min (physics sample_config) \<and>
   v_min (physics sample_config) \<le> v_max (physics sample_config) \<and>
   v_min (physics sample_config) \<le>
     speed_of (apply_gravity sample_config (1 / 20) (Orb_new sample_config 360 1220 0 300 1)) \<and>
   speed_of (clamp_speed sample_config
     (apply_gravity sample_config (1 / 20) (Orb_new sample_config 360 1220 0 300 1)))
     \<le> v_max (physics sample_config) \<and>
   v_min (physics sample_config) \<le>
     speed_of (clamp_speed sample_config
       (apply_gravity sample_config (1 / 20) (Orb_new sample_config 360 1220 0 300 1)))"
proof -
  have a: "0 < v_min (physics sample_config)"
    and b: "v_min (physics sample_config) \<le> v_max (physics sample_config)"
    by (simp_all add: sample_config_def)
  have c: "v_min (physics sample_config) \<le>
     speed_of (apply_gravity sample_config (1 / 20) (Orb_new sample_config 360 1220 0 300 1))"
    by (simp add: sample_config_def apply_gravity_def Orb_new_def speed_of_def hypot_zero_left)
  from C6_speed_after_clamp [OF a b, of "1 / 20" "Orb_new sample_config 360 1220 0 300 1"] a b c
  show ?thesis by blast
qed

subsection \<open>What each step leaves alone\<close>

lemma scale_vel_frame [simp]:
  "warpCooldown (scale_vel s ob) = warpCooldown ob" "radius (scale_vel s ob) = radius ob"
  "pos (scale_vel s ob) = pos ob"
  by (simp_all add: scale_vel_def)

lemma clamp_speed_frame [simp]:
  "warpCooldown (clamp_speed cfg ob) = warpCooldown ob" "radius (clamp_speed cfg ob) = radius ob"
  by (simp_all add: clamp_speed_def Let_def)

lemma apply_gravity_frame [simp]:
  "warpCooldown (apply_gravity cfg dt ob) = warpCooldown ob" "radius (apply_gravity cfg dt ob) = radius ob"
  by (simp_all add: apply_gravity_def)

lemma move_frame [simp]:
  "warpCooldown (move dt ob) = warpCooldown ob" "radius (move dt ob) = radius ob"
  by (simp_all add: move_def)

lemma walls_frame [simp]:
  "warpCooldown (walls ob) = warpCooldown ob" "radius (walls ob) = radius ob"
  by (simp_all add: walls_def Let_def)

lemma zones_loop_frame [simp]:
  "warpCooldown (zones_loop cfg dt zs ob) = warpCooldown ob \<and> radius (zones_loop cfg dt zs ob) = radius ob"
  by (induction zs arbitrary: ob) (simp_all add: Let_def)

lemma panels_loop_frame [simp]:
  "warpCooldown (panels_loop ps ob) = warpCooldown ob \<and> radius (panels_loop ps ob) = radius ob"
  by (induction ps arbitrary: ob) (simp_all add: Let_def split: option.splits)

lemma pre_warp_frame:
  "warpCooldown (pre_warp cfg dt b ob) = warpCooldown ob" "radius (pre_warp cfg dt b ob) = radius ob"
  by (simp_all add: pre_warp_def)

lemma warp_hit_cooldown: "warp_hit all ws ob \<Longrightarrow> warpCooldown ob \<le> 0"
  by (induction ws) (auto split: if_splits option.splits)

lemma warps_loop_cooldown:
  "warpCooldown (warps_loop cfg all ws ob) = (if warp_hit all ws ob then warp_cooldown cfg else warpCooldown ob)"
  by (induction ws) (auto split: option.splits)

lemma warps_loop_radius [simp]: "radius (warps_loop cfg all ws ob) = radius ob"
  by (induction ws) (auto split: option.splits)

lemma warps_loop_pos:
  "warp_hit all ws ob \<Longrightarrow>
     \<exists>w other. w \<in> set ws \<and> Warp_contains w (fst (pos ob)) (snd (pos ob)) \<and>
       deref_warp all (partner w) = Some other \<and>
       pos (warps_loop cfg all ws ob) = (warp_x other, warp_y other)"
  by (induction ws) (auto split: if_splits option.splits)

lemma cool_down_lower: "0 \<le> dt \<Longrightarrow> warpCooldown ob - dt \<le> warpCooldown (cool_down dt ob)"
  by (simp add: cool_down_def)

lemma cool_down_frame [simp]: "radius (cool_down dt ob) = radius ob" "pos (cool_down dt ob) = pos ob"
  by (simp_all add: cool_down_def)

lemma motion_cooldown:
  "warpCooldown (motion cfg dt b ob) =
     (if teleports cfg dt b ob then warp_cooldown cfg
      else warpCooldown (cool_down dt (pre_warp cfg dt b ob)))"
  by (simp add: motion_def warp_step_def teleports_def warps_loop_cooldown)


lemma teleports_expired:
  assumes "teleports cfg dt b ob" "0 \<le> dt"
  shows "warpCooldown ob - dt \<le> 0"
proof -
  have "warpCooldown (cool_down dt (pre_warp cfg dt b ob)) \<le> 0"
    using assms(1) by (simp add: teleports_def warp_hit_cooldown)
  moreover have "warpCooldown (pre_warp cfg dt b ob) - dt \<le> warpCooldown (cool_down dt (pre_warp cfg dt b ob))"
    using assms(2) by (rule cool_down_lower)
  ultimately show ?thesis by (simp add: pre_warp_frame)
qed

lemma motion_cooldown_lower:
  assumes "0 \<le> dt"
  shows "min (warp_cooldown cfg) (warpCooldown ob) - dt \<le> warpCooldown (motion cfg dt b ob)"
proof (cases "teleports cfg dt b ob")
  case True
  then show ?thesis using assms by (simp add: motion_cooldown)
next
  case False
  have "warpCooldown (pre_warp cfg dt b ob) - dt \<le> warpCooldown (cool_down dt (pre_warp cfg dt b ob))"
    using assms by (rule cool_down_lower)
  then show ?thesis using False by (simp add: motion_cooldown pre_warp_frame)
qed

lemma gates_loop_body:
  assumes "keeps_orbs cb" "gates_loop cb gs this w = Inr w'"
  shows "orb_body (orbs w' this) = orb_body (orbs w this)"
  using assms(2)
proof (induction gs arbitrary: w)
  case Nil
  then show ?case by simp
next
  case (Cons g gs)
  show ?case
  proof (cases "checkPass g (orbs w this) \<and> gate_id g \<notin> gatePassed (orbs w this)")
    case True
    define w1 where "w1 = set_orb this ((orbs w this)\<lparr>gatePassed := insert (gate_id g) (gatePassed (orbs w this))\<rparr>) w"
    from Cons.prems True obtain w2 where cbr: "onGatePassed cb g w1 = Inr w2"
      and rest: "gates_loop cb gs this w2 = Inr w'"
      by (auto simp: Let_def w1_def split: sum.splits)
    have "orbs w2 = orbs w1" using assms(1) cbr by (auto simp: keeps_orbs_def)
    then have "orb_body (orbs w2 this) = orb_body (orbs w this)"
      by (simp add: w1_def set_orb_def orb_body_def)
    with Cons.IH [OF rest] show ?thesis by simp
  next
    case False
    with Cons show ?thesis by auto
  qed
qed

lemma portals_loop_body:
  assumes "keeps_orbs cb" "portals_loop cb ps this w = Inr w'"
  shows "orb_body (orbs w' this) = orb_body (orbs w this)"
  using assms(2)
proof (induction ps arbitrary: w)
  case Nil
  then show ?case by simp
next
  case (Cons p ps)
  show ?case
  proof (cases "Portal_contains p (fst (pos (orbs w this))) (snd (pos (orbs w this)))")
    case True
    define w1 where "w1 = set_orb this ((orbs w this)\<lparr>alive := False\<rparr>) w"
    from Cons.prems True obtain w2 where cbr: "onPortalEntered cb p w1 = Inr w2"
      and rest: "portals_loop cb ps this w2 = Inr w'"
      by (auto simp: Let_def w1_def split: sum.splits)
    have "orbs w2 = orbs w1" using assms(1) cbr by (auto simp: keeps_orbs_def)
    then have "orb_body (orbs w2 this) = orb_body (orbs w this)"
      by (simp add: w1_def set_orb_def orb_body_def)
    with Cons.IH [OF rest] show ?thesis by simp
  next
    case False
    with Cons show ?thesis by auto
  qed
qed

lemma out_of_bounds_body:
  assumes "keeps_orbs cb" "out_of_bounds cb this w = Inr w'"
  shows "orb_body (orbs w' this) = orb_body (orbs w this)"
proof (cases "snd (pos (orbs w this)) - radius (orbs w this) > VIRTUAL_H + 100")
  case True
  define w1 where "w1 = set_orb this ((orbs w this)\<lparr>alive := False\<rparr>) w"
  from assms(2) True have "onMiss cb this w1 = Inr w'"
    by (simp add: out_of_bounds_def Let_def w1_def)
  then have "orbs w' = orbs w1" using assms(1) by (auto simp: keeps_orbs_def)
  then show ?thesis by (simp add: w1_def set_orb_def orb_body_def)
next
  case False
  with assms(2) show ?thesis by (simp add: out_of_bounds_def)
qed

lemma Orb_update_body:
  assumes "keeps_orbs cb" "Orb_update cfg cb dt b this w = Inr w'"
  shows "orb_body (orbs w' this) = orb_body (motion cfg dt b (orbs w this))"
proof -
  define w1 where "w1 = set_orb this (motion cfg dt b (orbs w this)) w"
  from assms(2) obtain w2 w3 where g: "gates_loop cb (gates b) this w1 = Inr w2"
    and p: "portals_loop cb (portals b) this w2 = Inr w3"
    and m: "out_of_bounds cb this w3 = Inr w'"
    by (auto simp: Orb_update_def Let_def w1_def split: sum.splits)
  have "orb_body (orbs w' this) = orb_body (orbs w1 this)"
    using gates_loop_body [OF assms(1) g] portals_loop_body [OF assms(1) p]
      out_of_bounds_body [OF assms(1) m] by simp
  then show ?thesis by (simp add: w1_def set_orb_def)
qed

lemma keeps_orbs_prototype: "keeps_orbs (prototype_callbacks cfg rnd)"
  by (auto simp: keeps_orbs_def prototype_callbacks_def Board_onGatePassed_def Board_onPortalEntered_def
      Board_onMiss_def doEnergyCheck_frame record_shot_frame Let_def)





lemma gates_loop_total: "never_raises cb \<Longrightarrow> \<exists>w'. gates_loop cb gs this w = Inr w'"
proof (induction gs arbitrary: w)
  case Nil
  then show ?case by simp
next
  case (Cons g gs)
  show ?case
  proof (cases "checkPass g (orbs w this) \<and> gate_id g \<notin> gatePassed (orbs w this)")
    case True
    define w1 where "w1 = set_orb this ((orbs w this)\<lparr>gatePassed := insert (gate_id g) (gatePassed (orbs w this))\<rparr>) w"
    from Cons.prems obtain w2 where "onGatePassed cb g w1 = Inr w2"
      unfolding never_raises_def by blast
    then show ?thesis using True Cons.IH [OF Cons.prems, of w2] by (simp add: Let_def w1_def)
  next
    case False
    then show ?thesis using Cons.IH [OF Cons.prems, of w] by auto
  qed
qed

lemma portals_loop_total: "never_raises cb \<Longrightarrow> \<exists>w'. portals_loop cb ps this w = Inr w'"
proof (induction ps arbitrary: w)
  case Nil
  then show ?case by simp
next
  case (Cons p ps)
  show ?case
  proof (cases "Portal_contains p (fst (pos (orbs w this))) (snd (pos (orbs w this)))")
    case True
    define w1 where "w1 = set_orb this ((orbs w this)\<lparr>alive := False\<rparr>) w"
    from Cons.prems obtain w2 where "onPortalEntered cb p w1 = Inr w2"
      unfolding never_raises_def by blast
    then show ?thesis using True Cons.IH [OF Cons.prems, of w2] by (simp add: Let_def w1_def)
  next
    case False
    then show ?thesis using Cons.IH [OF Cons.prems, of w] by auto
  qed
qed

lemma out_of_bounds_total: "never_raises cb \<Longrightarrow> \<exists>w'. out_of_bounds cb this w = Inr w'"
  by (auto simp: out_of_bounds_def never_raises_def Let_def)

lemma Orb_update_total:
  assumes "never_raises cb"
  shows "\<exists>w'. Orb_update cfg cb dt b this w = Inr w'"
proof -
  define w1 where "w1 = set_orb this (motion cfg dt b (orbs w this)) w"
  from gates_loop_total [OF assms] obtain w2 where g: "gates_loop cb (gates b) this w1 = Inr w2" by blast
  from portals_loop_total [OF assms] obtain w3 where p: "portals_loop cb (portals b) this w2 = Inr w3" by blast
  from out_of_bounds_total [OF assms] obtain w4 where m: "out_of_bounds cb this w3 = Inr w4" by blast
  show ?thesis using g p m by (simp add: Orb_update_def Let_def w1_def)
qed

lemma updates_total:
  assumes "never_raises cb"
  shows "\<exists>w'. updates cfg cb b this dts w = Inr w'"
proof (induction dts arbitrary: w)
  case Nil
  then show ?case by simp
next
  case (Cons d dts)
  from Orb_update_total [OF assms] obtain w1 where "Orb_update cfg cb d b this w = Inr w1" by blast
  then show ?case using Cons [of w1] by simp
qed

lemma never_raises_prototype: "never_raises (prototype_callbacks cfg rnd)"
  by (simp add: never_raises_def prototype_callbacks_def)


lemma updates_cooldown_lower:
  assumes "keeps_orbs cb" "\<forall>d \<in> set dts. 0 \<le> d" "updates cfg cb b this dts w = Inr w'"
  shows "min (warp_cooldown cfg) (warpCooldown (orbs w this)) - sum_list dts \<le> warpCooldown (orbs w' this)"
  using assms(2,3)
proof (induction dts arbitrary: w)
  case Nil
  then show ?case by simp
next
  case (Cons d dts)
  from Cons.prems(2) obtain w1 where u: "Orb_update cfg cb d b this w = Inr w1"
    and r: "updates cfg cb b this dts w1 = Inr w'"
    by (auto split: sum.splits)
  have d: "0 \<le> d" using Cons.prems(1) by simp
  have "warpCooldown (orbs w1 this) = warpCooldown (motion cfg d b (orbs w this))"
    using Orb_update_body [OF assms(1) u] by (simp add: orb_body_def)
  then have s1: "min (warp_cooldown cfg) (warpCooldown (orbs w this)) - d \<le> warpCooldown (orbs w1 this)"
    using motion_cooldown_lower [OF d, of cfg "orbs w this" b] by simp
  have "min (warp_cooldown cfg) (warpCooldown (orbs w1 this)) - sum_list dts \<le> warpCooldown (orbs w' this)"
    using Cons.IH [OF _ r] Cons.prems(1) by simp
  with s1 d show ?case by (simp add: min_def split: if_splits)
qed

subsection \<open>Warp cooldown\<close>

lemma warp_board_fields:
  "panels warp_board = []" "zones warp_board = []" "gates warp_board = []"
  "portals warp_board = []"
  "warps warp_board =
     [\<lparr>warp_x = 100, warp_y = 300, warp_r = 30, warp_id = 1, partner = Some 1\<rparr>,
      \<lparr>warp_x = 600, warp_y = 800, warp_r = 30, warp_id = 2, partner = Some 0\<rparr>]"
  by (simp_all add: warp_board_def Warp_new_def Let_def)

lemmas step_defs = Orb_new_def motion_def pre_warp_def warp_step_def cool_down_def
  apply_gravity_def clamp_speed_def move_def walls_def scale_vel_def hypot_zero_left
  VIRTUAL_W_def VIRTUAL_H_def Warp_contains_def deref_warp_def Let_def

lemmas flying_defs = still_config_def sample_config_def flying_def sample_world_def

text \<open>
  C7. An orb teleports during an update (its position becomes the centre of the partner
  of a warp of the board and its cooldown the configured one). It is then updated with
  the steps \<open>dts\<close>, none negative, whatever happens during them, and teleports again
  during the update with step \<open>dt\<close>. Then the steps since the first teleport, the last
  one included, add up to at least the configured cooldown.
\<close>

theorem C7_warp_retrigger_after_cooldown:
  assumes "teleports cfg dt0 b (orbs w this)"
    and "Orb_update cfg (prototype_callbacks cfg rnd) dt0 b this w = Inr w0"
    and "updates cfg (prototype_callbacks cfg rnd) b this dts w0 = Inr w1"
    and "\<forall>d \<in> set dts. 0 \<le> d" and "0 \<le> dt"
    and "teleports cfg dt b (orbs w1 this)"
  shows "warpCooldown (orbs w0 this) = warp_cooldown cfg \<and>
         (\<exists>wp other. wp \<in> set (warps b) \<and> deref_warp (warps b) (partner wp) = Some other \<and>
             pos (orbs w0 this) = (warp_x other, warp_y other)) \<and>
         warp_cooldown cfg \<le> sum_list dts + dt"
proof -
  have body0: "orb_body (orbs w0 this) = orb_body (motion cfg dt0 b (orbs w this))"
    by (rule Orb_update_body [OF keeps_orbs_prototype assms(2)])
  have cd0: "warpCooldown (orbs w0 this) = warp_cooldown cfg"
    using body0 assms(1) by (simp add: orb_body_def motion_cooldown)
  have hit: "warp_hit (warps b) (warps b) (cool_down dt0 (pre_warp cfg dt0 b (orbs w this)))"
    using assms(1) by (simp add: teleports_def)
  from warps_loop_pos [OF hit, of cfg] obtain wp other where
    "wp \<in> set (warps b)" "deref_warp (warps b) (partner wp) = Some other"
    "pos (motion cfg dt0 b (orbs w this)) = (warp_x other, warp_y other)"
    by (auto simp: motion_def warp_step_def)
  then have tele: "\<exists>wp other. wp \<in> set (warps b) \<and>
      deref_warp (warps b) (partner wp) = Some other \<and>
      pos (orbs w0 this) = (warp_x other, warp_y other)"
    using body0 by (auto simp: orb_body_def)
  have "min (warp_cooldown cfg) (warpCooldown (orbs w0 this)) - sum_list dts
      \<le> warpCooldown (orbs w1 this)"
    by (rule updates_cooldown_lower [OF keeps_orbs_prototype assms(4) assms(3)])
  then have "warp_cooldown cfg - sum_list dts \<le> warpCooldown (orbs w1 this)"
    by (simp add: cd0)
  moreover have "warpCooldown (orbs w1 this) - dt \<le> 0"
    by (rule teleports_expired [OF assms(6) assms(5)])
  ultimately have "warp_cooldown cfg \<le> sum_list dts + dt"
    by linarith
  with cd0 tele show ?thesis by blast
qed

text \<open>
  The witness: cooldown 0.1 s, steps of 0.05 s, no gravity. The orb enters the first warp
  and is sent to the centre of the second, (600, 800); one step later it is still inside
  the second warp with 0.05 s of cooldown left and stays; after the next step the
  cooldown is used up and it teleports again, 0.1 s after the first time.
\<close>

theorem C7_warp_retrigger_after_cooldown_witness:
  "teleports still_config (1 / 20) warp_board (orbs (flying (100, 295) (0, 100) 0) 0) \<and>
   Orb_update still_config (prototype_callbacks still_config (\<lambda>n. 0)) (1 / 20) warp_board 0
     (flying (100, 295) (0, 100) 0) = Inr (flying (600, 800) (0, 100) (1 / 10)) \<and>
   updates still_config (prototype_callbacks still_config (\<lambda>n. 0)) warp_board 0 [1 / 20]
     (flying (600, 800) (0, 100) (1 / 10)) = Inr (flying (600, 805) (0, 100) (1 / 20)) \<and>
   \<not> teleports still_config (1 / 20) warp_board (orbs (flying (600, 800) (0, 100) (1 / 10)) 0) \<and>
   teleports still_config (1 / 20) warp_board (orbs (flying (600, 805) (0, 100) (1 / 20)) 0) \<and>
   warpCooldown (orbs (flying (600, 800) (0, 100) (1 / 10)) 0) = warp_cooldown still_config \<and>
   warp_cooldown still_config \<le> sum_list [1 / 20] + 1 / 20"
proof -
  have a: "teleports still_config (1 / 20) warp_board (orbs (flying (100, 295) (0, 100) 0) 0)"
    by (simp add: teleports_def step_defs flying_defs warp_board_fields)
  have b: "Orb_update still_config (prototype_callbacks still_config (\<lambda>n. 0)) (1 / 20) warp_board 0
     (flying (100, 295) (0, 100) 0) = Inr (flying (600, 800) (0, 100) (1 / 10))"
    by (simp add: Orb_update_def out_of_bounds_def set_orb_def step_defs flying_defs
        warp_board_fields)
  have c: "updates still_config (prototype_callbacks still_config (\<lambda>n. 0)) warp_board 0 [1 / 20]
     (flying (600, 800) (0, 100) (1 / 10)) = Inr (flying (600, 805) (0, 100) (1 / 20))"
    by (simp add: Orb_update_def out_of_bounds_def set_orb_def step_defs flying_defs
        warp_board_fields)
  have d: "\<forall>d \<in> set [1 / 20 :: real]. 0 \<le> d"
    by simp
  have e: "(0::real) \<le> 1 / 20"
    by simp
  have f: "teleports still_config (1 / 20) warp_board (orbs (flying (600, 805) (0, 100) (1 / 20)) 0)"
    by (simp add: teleports_def step_defs flying_defs warp_board_fields)
  have g: "\<not> teleports still_config (1 / 20) warp_board (orbs (flying (600, 800) (0, 100) (1 / 10)) 0)"
    by (simp add: teleports_def step_defs flying_defs warp_board_fields)
  from C7_warp_retrigger_after_cooldown [OF a b c d e f] a b c f g show ?thesis
    by blast
qed


subsection \<open>The callbacks an update makes\<close>

text \<open>
  With the callbacks the constructor installs, the first call of an update raises: the
  handlers of \<open>Board.prototype\<close> run only on a board whose own properties do not hide them.
\<close>

lemma constructor_callbacks_raise:
  "onGatePassed constructor_callbacks g w = Inl TypeError"
  "onPortalEntered constructor_callbacks p w = Inl TypeError"
  "onMiss constructor_callbacks a w = Inl TypeError"
  by (simp_all add: constructor_callbacks_def)













subsection \<open>Combo across one update\<close>

text \<open>
  The gate set that the portal-entered handler reads is the one the same update has just
  written: an orb that passes its first gate and enters a portal in one update raises the
  combo (here from 2 to 3); on the same board without the gate the combo falls to 1.
\<close>

lemma combo_same_update:
  "map_sum id (\<lambda>w'. (combo w', score w', currentOrb w', gatePassed (orbs w' 0)))
     (Orb_update sample_config (prototype_callbacks sample_config (\<lambda>n. 0)) (1 / 20) gate_board 0
        ((flying (210, 1190) (0, 300) 0)\<lparr>combo := 2\<rparr>)) = Inr (3, 150, None, {1})"
  by (simp add: Orb_update_def out_of_bounds_def set_orb_def prototype_callbacks_def
      gate_board_def plain_board_def Portal_new_def Gate_new_def Portal_contains_def checkPass_def
      Board_onPortalEntered_def Board_onGatePassed_def doEnergyCheck_def record_shot_def portalScore_def
      Math_round_def clamp_def sample_config_def flying_def sample_world_def Orb_new_def
      motion_def pre_warp_def warp_step_def cool_down_def apply_gravity_def clamp_speed_def
      move_def walls_def scale_vel_def hypot_zero_left VIRTUAL_W_def VIRTUAL_H_def Let_def)

lemma combo_no_gate:
  "map_sum id (\<lambda>w'. (combo w', score w', currentOrb w', gatePassed (orbs w' 0)))
     (Orb_update sample_config (prototype_callbacks sample_config (\<lambda>n. 0)) (1 / 20) plain_board 0
        ((flying (210, 1190) (0, 300) 0)\<lparr>combo := 2\<rparr>)) = Inr (1, 100, None, {})"
  by (simp add: Orb_update_def out_of_bounds_def set_orb_def prototype_callbacks_def
      plain_board_def Portal_new_def Gate_new_def Portal_contains_def checkPass_def
      Board_onPortalEntered_def Board_onGatePassed_def doEnergyCheck_def record_shot_def portalScore_def
      Math_round_def clamp_def sample_config_def flying_def sample_world_def Orb_new_def
      motion_def pre_warp_def warp_step_def cool_down_def apply_gravity_def clamp_speed_def
      move_def walls_def scale_vel_def hypot_zero_left VIRTUAL_W_def VIRTUAL_H_def Let_def)

end
